theory Spec2Isabelle
  imports Main "HOL-Library.Multiset"
begin

section \<open>The XMPP client connection of lusis/hipchat (xmpp.go)\<close>

subsection \<open>Decoded XML values (encoding/xml)\<close>

text \<open>
  \<^verbatim>\<open>xml.Name\<close>, \<^verbatim>\<open>xml.Attr\<close> and \<^verbatim>\<open>xml.StartElement\<close> of Go's
  encoding/xml, with the fields the program reads.
\<close>

record xml_Name =
  Space :: string
  Local :: string

record xml_Attr =
  Attr_Name :: xml_Name
  Attr_Value :: string

record xml_StartElement =
  Elem_Name :: xml_Name
  Elem_Attr :: "xml_Attr list"

subsection \<open>ToMap\<close>

text \<open>
  \<^verbatim>\<open>m := make(map[string]string); for _, a := range attr { m[a.Name.Local] = a.Value }\<close>:
  the loop runs over the slice in order, each step storing one entry.
\<close>

definition ToMap :: "xml_Attr list \<Rightarrow> (string \<rightharpoonup> string)" where
  "ToMap attr = foldl (\<lambda>m a. m(Local (Attr_Name a) \<mapsto> Attr_Value a)) Map.empty attr"

subsection \<open>Errors, transports, channels and the world outside the program\<close>

text \<open>
  A Go \<^verbatim>\<open>error\<close> value is known by its message; \<^verbatim>\<open>errors.New\<close> makes one and
  \<^verbatim>\<open>err.Error()\<close> reads the message back. A nil error is \<open>None\<close>.
\<close>

datatype error = Error string

definition errors_New :: "string \<Rightarrow> error" where
  "errors_New msg = Error msg"

fun error_Error :: "error \<Rightarrow> string" where
  "error_Error (Error msg) = msg"

text \<open>
  A \<^verbatim>\<open>net.Conn\<close> interface value is a reference: nil, a TCP socket, or the
  \<^verbatim>\<open>*tls.Conn\<close> that \<^verbatim>\<open>tls.Client(conn, &tls.Config{ServerName: host})\<close> wraps
  around another one. What a reference does when written to lives in the store
  \<open>conns\<close> of the world, so that two fields holding the same reference share it.
\<close>

datatype netconn = NilConn | TcpConn nat | TlsConn netconn string

definition tls_Client :: "netconn \<Rightarrow> string \<Rightarrow> netconn" where
  "tls_Client conn ServerName = TlsConn conn ServerName"

fun backed :: "netconn \<Rightarrow> bool" where
  "backed NilConn = False"
| "backed (TcpConn n) = True"
| "backed (TlsConn conn host) = backed conn"

text \<open>
  The state of one transport: the bytes it has accepted from the program (for a TLS
  session, the plaintext handed to it), how many more bytes it accepts before its
  \<^verbatim>\<open>Write\<close> fails (\<open>None\<close>: no limit; \<open>Some 0\<close>: a closed connection, or a TLS session
  whose handshake fails on first use), and the error it fails with.
\<close>

record wire =
  sent :: string
  wlimit :: "nat option"
  werror :: error

text \<open>
  A Go channel of errors: capacity, buffered elements, the number of goroutines parked
  in a receive on it, the elements handed straight to such receivers, and whether it has
  been closed.
\<close>

record chan =
  cap :: nat
  buf :: "error list"
  receivers :: nat
  handed :: "error list"
  closed :: bool

text \<open>The tokens of encoding/xml and the structures the program decodes into.\<close>

datatype token =
    StartElement xml_StartElement
  | EndElement xml_Name
  | CharDataToken string
  | Comment string
  | ProcInst string string
  | Directive string

record features =
  features_XMLName :: xml_Name
  StartTLS :: "unit option"
  Mechanisms :: "string list"

record item =
  Email :: string
  Jid :: string
  LastActive :: string
  MentionName :: string
  Name :: string
  NumParticipants :: string
  Owner :: string
  Privacy :: string
  RoomId :: string
  Topic :: string

record query =
  query_XMLName :: xml_Name
  Items :: "item list"

record body =
  body_Body :: string

text \<open>
  What \<^verbatim>\<open>DecodeElement(v, nil)\<close> leaves behind: the value decoded into \<^verbatim>\<open>v\<close> (the zero
  value, or a partly filled one, when it fails), its error, and the position of the
  decoder afterwards.
\<close>

record 'a decoded =
  dvalue :: 'a
  derr :: "error option"
  dnext :: nat

text \<open>
  The world outside the program: what \<^verbatim>\<open>net.Dial\<close> answers for a network and an
  address, the transports, what each transport's XML decoder yields at each position
  (the result of \<^verbatim>\<open>Token()\<close>, and of \<^verbatim>\<open>DecodeElement\<close> into each of the three
  structures), the channels, the bytes \<^verbatim>\<open>crypto/rand.Reader\<close> still delivers and the
  error it reports after them, and the standard output.
\<close>

record world =
  network :: "string \<Rightarrow> string \<Rightarrow> error + netconn"
  conns :: "netconn \<Rightarrow> wire"
  inbound :: "netconn \<Rightarrow> nat \<Rightarrow> error + token"
  unmarshal_features :: "netconn \<Rightarrow> nat \<Rightarrow> features decoded"
  unmarshal_body :: "netconn \<Rightarrow> nat \<Rightarrow> body decoded"
  unmarshal_query :: "netconn \<Rightarrow> nat \<Rightarrow> query decoded"
  chans :: "nat \<Rightarrow> chan"
  rand_avail :: string
  rand_err :: error
  stdout :: string

text \<open>
  How a call ends: it returns a value in a new world, it panics, or the goroutine is
  parked and the call does not return: on a send on a nil channel (forever, by the
  language), on a send that finds neither a waiting receiver nor room in the buffer
  (until another goroutine receives), or on a read loop that never finds what it waits
  for.
\<close>

datatype blocked = NilChannel | FullChannel nat | NoStartElement

datatype 'a outcome = Returns 'a world | Panics | Blocks blocked

text \<open>The send statement \<^verbatim>\<open>ch <- e\<close>.\<close>

definition chan_send :: "nat option \<Rightarrow> error \<Rightarrow> world \<Rightarrow> unit outcome" where
  "chan_send ch e w =
     (case ch of
        None \<Rightarrow> Blocks NilChannel
      | Some i \<Rightarrow>
          (let st = chans w i in
           if closed st then Panics
           else if 0 < receivers st then
             Returns () (w\<lparr>chans := (chans w)
               (i := st\<lparr>receivers := receivers st - 1, handed := handed st @ [e]\<rparr>)\<rparr>)
           else if length (buf st) < cap st then
             Returns () (w\<lparr>chans := (chans w)(i := st\<lparr>buf := buf st @ [e]\<rparr>)\<rparr>)
           else Blocks (FullChannel i)))"

text \<open>
  \<^verbatim>\<open>conn.Write(p)\<close>: the number of bytes written and the error, or \<open>None\<close> for the
  nil-pointer panic of a call on a nil interface.
\<close>

definition conn_Write ::
  "netconn \<Rightarrow> string \<Rightarrow> world \<Rightarrow> ((nat \<times> error option) \<times> world) option" where
  "conn_Write conn p w =
     (if \<not> backed conn then None
      else
        (let st = conns w conn in
         case wlimit st of
           None \<Rightarrow>
             Some ((length p, None), w\<lparr>conns := (conns w)(conn := st\<lparr>sent := sent st @ p\<rparr>)\<rparr>)
         | Some n \<Rightarrow>
             if length p \<le> n then
               Some ((length p, None),
                 w\<lparr>conns := (conns w)
                   (conn := st\<lparr>sent := sent st @ p, wlimit := Some (n - length p)\<rparr>)\<rparr>)
             else
               Some ((n, Some (werror st)),
                 w\<lparr>conns := (conns w)
                   (conn := st\<lparr>sent := sent st @ take n p, wlimit := Some 0\<rparr>)\<rparr>)))"

subsection \<open>Formatting (fmt) and escaping (html)\<close>

text \<open>
  \<^verbatim>\<open>fmt.Sprintf\<close> for the verb of the program's templates, \<^verbatim>\<open>%s\<close> with a string
  operand; a verb with no operand left prints as Go's \<^verbatim>\<open>%!s(MISSING)\<close>. Every template
  of the program is used with as many operands as it has verbs, and has no other verb.
\<close>

fun Sprintf :: "string \<Rightarrow> string list \<Rightarrow> string" where
  "Sprintf [] args = []"
| "Sprintf [c] args = [c]"
| "Sprintf (c # d # fmt) args =
     (if c = CHR ''%'' \<and> d = CHR ''s'' then
        (case args of
           [] \<Rightarrow> ''%!s(MISSING)'' @ Sprintf fmt []
         | a # rest \<Rightarrow> a @ Sprintf fmt rest)
      else c # Sprintf (d # fmt) args)"

text \<open>\<^verbatim>\<open>fmt.Sprintf("%x", b)\<close> for a byte slice: two lower-case hex digits a byte.\<close>

definition hex_digit :: "nat \<Rightarrow> char" where
  "hex_digit n = ''0123456789abcdef'' ! (n mod 16)"

definition Sprintf_x :: "string \<Rightarrow> string" where
  "Sprintf_x b = concat (map (\<lambda>c. [hex_digit (of_char c div 16), hex_digit (of_char c)]) b)"

text \<open>
  \<^verbatim>\<open>fmt.Fprintf(w, format, args...)\<close> formats, then writes the result with one call of
  \<^verbatim>\<open>w.Write\<close>.
\<close>

definition fmt_Fprintf ::
  "netconn \<Rightarrow> string \<Rightarrow> string list \<Rightarrow> world \<Rightarrow> ((nat \<times> error option) \<times> world) option" where
  "fmt_Fprintf conn format args w = conn_Write conn (Sprintf format args) w"

text \<open>
  \<^verbatim>\<open>html.EscapeString\<close>: one pass over the bytes, replacing exactly the five characters
  \<^verbatim>\<open>& ' < > "\<close> by \<^verbatim>\<open>&amp; &#39; &lt; &gt; &#34;\<close>.
\<close>

fun EscapeString :: "string \<Rightarrow> string" where
  "EscapeString [] = []"
| "EscapeString (c # s) =
     (if c = CHR ''&'' then ''&amp;''
      else if c = CHR 0x27 then ''&#39;''
      else if c = CHR ''<'' then ''&lt;''
      else if c = CHR ''>'' then ''&gt;''
      else if c = CHR 0x22 then ''&#34;''
      else [c]) @ EscapeString s"




subsection \<open>Constants and templates\<close>

definition NsJabberClient :: string where
  "NsJabberClient = ''jabber:client''"

definition NsStream :: string where
  "NsStream = ''http://etherx.jabber.org/streams''"

definition NsIqAuth :: string where
  "NsIqAuth = ''jabber:iq:auth''"

definition NsIqRoster :: string where
  "NsIqRoster = ''jabber:iq:roster''"

definition NsTLS :: string where
  "NsTLS = ''urn:ietf:params:xml:ns:xmpp-tls''"

definition NsDisco :: string where
  "NsDisco = ''http://jabber.org/protocol/disco#items''"

definition NsMuc :: string where
  "NsMuc = ''http://jabber.org/protocol/muc''"

definition xmlStream :: string where
  "xmlStream = ''<stream:stream from='%s' to='%s' version='1.0' xml:lang='en' xmlns='%s' xmlns:stream='%s'>''"

definition xmlStartTLS :: string where
  "xmlStartTLS = ''<starttls xmlns='%s'/>''"

definition xmlIqSet :: string where
  "xmlIqSet = ''<iq type='set' id='%s'><query xmlns='%s'><username>%s</username><password>%s</password><resource>%s</resource></query></iq>''"

definition xmlIqGet :: string where
  "xmlIqGet = ''<iq from='%s' to='%s' id='%s' type='get'><query xmlns='%s'/></iq>''"

definition xmlPresence :: string where
  "xmlPresence = ''<presence from='%s'><show>%s</show></presence>''"

definition xmlMUCPart :: string where
  "xmlMUCPart = ''<presence to='%s' type='unavailable'></presence>''"

definition xmlMUCPresence :: string where
  "xmlMUCPresence = ''<presence id='%s' to='%s' from='%s'><x xmlns='%s'/></presence>''"

definition xmlMUCMessage :: string where
  "xmlMUCMessage = ''<message from='%s' id='%s' to='%s' type='%s'><body>%s</body></message>''"

subsection \<open>The connection\<close>

text \<open>
  \<^verbatim>\<open>xml.NewDecoder(r)\<close> makes a decoder that reads from \<^verbatim>\<open>r\<close>, at the start of what
  \<^verbatim>\<open>r\<close> delivers from then on. \<^verbatim>\<open>Conn.incoming\<close> is a pointer (nil: \<open>None\<close>),
  \<^verbatim>\<open>Conn.outgoing\<close> an interface value, \<^verbatim>\<open>Conn.errchan\<close> a channel (nil: \<open>None\<close>).
\<close>

record decoder =
  dec_src :: netconn
  dec_pos :: nat

definition xml_NewDecoder :: "netconn \<Rightarrow> decoder" where
  "xml_NewDecoder r = \<lparr>dec_src = r, dec_pos = 0\<rparr>"

record Conn =
  incoming :: "decoder option"
  outgoing :: netconn
  errchan :: "nat option"

definition new_Conn :: Conn where
  "new_Conn = \<lparr>incoming = None, outgoing = NilConn, errchan = None\<rparr>"

subsection \<open>id\<close>

text \<open>
  \<^verbatim>\<open>io.ReadFull(rand.Reader, b)\<close> fills \<^verbatim>\<open>b\<close> or fails, leaving the bytes it could
  not read at zero; when the reader ends with \<^verbatim>\<open>io.EOF\<close> after some bytes, the error is
  \<^verbatim>\<open>io.ErrUnexpectedEOF\<close>. \<^verbatim>\<open>id\<close> prints the failure and goes on with \<^verbatim>\<open>b\<close> as it
  is.
\<close>

definition io_EOF :: error where
  "io_EOF = Error ''EOF''"

definition io_ErrUnexpectedEOF :: error where
  "io_ErrUnexpectedEOF = Error ''unexpected EOF''"

definition io_ReadFull_rand :: "nat \<Rightarrow> world \<Rightarrow> (string \<times> error option) \<times> world" where
  "io_ReadFull_rand n w =
     (let got = take n (rand_avail w) in
      if length got = n then ((got, None), w\<lparr>rand_avail := drop n (rand_avail w)\<rparr>)
      else ((got @ replicate (n - length got) (CHR 0x00),
             Some (if rand_err w = io_EOF \<and> got \<noteq> [] then io_ErrUnexpectedEOF
                   else rand_err w)),
            w\<lparr>rand_avail := []\<rparr>))"

definition id_xmpp :: "world \<Rightarrow> string \<times> world" where
  "id_xmpp w =
     (case io_ReadFull_rand 8 w of
        ((b, None), w1) \<Rightarrow> (Sprintf_x b, w1)
      | ((b, Some err), w1) \<Rightarrow>
          (Sprintf_x b,
           w1\<lparr>stdout := stdout w1 @ Sprintf ''error generating id: %s'' [error_Error err]\<rparr>))"

subsection \<open>Writer operations\<close>

text \<open>
  Every writer but \<^verbatim>\<open>KeepAlive\<close> has the body
  \<^verbatim>\<open>if _, err := fmt.Fprintf(c.outgoing, ...); err != nil { c.errchan <- err }\<close>;
  \<open>report\<close> is the part after the call of \<^verbatim>\<open>Fprintf\<close>.
\<close>

definition report :: "Conn \<Rightarrow> ((nat \<times> error option) \<times> world) option \<Rightarrow> unit outcome" where
  "report c r =
     (case r of
        None \<Rightarrow> Panics
      | Some ((n, None), w) \<Rightarrow> Returns () w
      | Some ((n, Some err), w) \<Rightarrow> chan_send (errchan c) err w)"

definition Stream :: "Conn \<Rightarrow> string \<Rightarrow> string \<Rightarrow> world \<Rightarrow> unit outcome" where
  "Stream c jid host w =
     report c (fmt_Fprintf (outgoing c) xmlStream [jid, host, NsJabberClient, NsStream] w)"

definition StartTLS_op :: "Conn \<Rightarrow> world \<Rightarrow> unit outcome" where
  "StartTLS_op c w = report c (fmt_Fprintf (outgoing c) xmlStartTLS [NsTLS] w)"

definition UseTLS :: "Conn \<Rightarrow> string \<Rightarrow> Conn" where
  "UseTLS c host =
     (let c1 = c\<lparr>outgoing := tls_Client (outgoing c) host\<rparr>
      in c1\<lparr>incoming := Some (xml_NewDecoder (outgoing c1))\<rparr>)"

definition Auth :: "Conn \<Rightarrow> string \<Rightarrow> string \<Rightarrow> string \<Rightarrow> world \<Rightarrow> unit outcome" where
  "Auth c user pass resource w =
     (case id_xmpp w of (i, w1) \<Rightarrow>
        report c (fmt_Fprintf (outgoing c) xmlIqSet [i, NsIqAuth, user, pass, resource] w1))"

definition Discover :: "Conn \<Rightarrow> string \<Rightarrow> string \<Rightarrow> world \<Rightarrow> unit outcome" where
  "Discover c from to w =
     (case id_xmpp w of (i, w1) \<Rightarrow>
        report c (fmt_Fprintf (outgoing c) xmlIqGet [from, to, i, NsDisco] w1))"

definition Presence :: "Conn \<Rightarrow> string \<Rightarrow> string \<Rightarrow> world \<Rightarrow> unit outcome" where
  "Presence c jid pres w = report c (fmt_Fprintf (outgoing c) xmlPresence [jid, pres] w)"

definition MUCPart :: "Conn \<Rightarrow> string \<Rightarrow> world \<Rightarrow> unit outcome" where
  "MUCPart c roomId w = report c (fmt_Fprintf (outgoing c) xmlMUCPart [roomId] w)"

definition MUCPresence :: "Conn \<Rightarrow> string \<Rightarrow> string \<Rightarrow> world \<Rightarrow> unit outcome" where
  "MUCPresence c roomId jid w =
     (case id_xmpp w of (i, w1) \<Rightarrow>
        report c (fmt_Fprintf (outgoing c) xmlMUCPresence [i, roomId, jid, NsMuc] w1))"

definition MUCSend ::
  "Conn \<Rightarrow> string \<Rightarrow> string \<Rightarrow> string \<Rightarrow> string \<Rightarrow> world \<Rightarrow> unit outcome" where
  "MUCSend c mtype to from body w =
     (case id_xmpp w of (i, w1) \<Rightarrow>
        report c
          (fmt_Fprintf (outgoing c) xmlMUCMessage [from, i, to, mtype, EscapeString body] w1))"

definition Roster :: "Conn \<Rightarrow> string \<Rightarrow> string \<Rightarrow> world \<Rightarrow> unit outcome" where
  "Roster c from to w =
     (case id_xmpp w of (i, w1) \<Rightarrow>
        report c (fmt_Fprintf (outgoing c) xmlIqGet [from, to, i, NsIqRoster] w1))"

definition KeepAlive :: "Conn \<Rightarrow> world \<Rightarrow> error option outcome" where
  "KeepAlive c w =
     (case fmt_Fprintf (outgoing c) '' '' [] w of
        None \<Rightarrow> Panics
      | Some ((n, Some err), w1) \<Rightarrow> Returns (Some err) w1
      | Some ((n, None), w1) \<Rightarrow> Returns None w1)"

definition SetErrorChannel :: "Conn \<Rightarrow> nat option \<Rightarrow> Conn" where
  "SetErrorChannel c channel = c\<lparr>errchan := channel\<rparr>"

subsection \<open>Dial\<close>

text \<open>
  \<^verbatim>\<open>Dial\<close> returns the pointer \<^verbatim>\<open>c\<close> it made with \<^verbatim>\<open>new(Conn)\<close> on both paths; a
  pointer result is an option, \<open>None\<close> for nil.
\<close>

definition Dial :: "string \<Rightarrow> world \<Rightarrow> (Conn option \<times> error option) outcome" where
  "Dial host w =
     (let c = new_Conn in
      case network w ''tcp'' (host @ '':5222'') of
        Inl err \<Rightarrow> Returns (Some c, Some err) w
      | Inr conn \<Rightarrow>
          (let c1 = c\<lparr>outgoing := conn\<rparr>;
               c2 = c1\<lparr>incoming := Some (xml_NewDecoder conn)\<rparr>
           in Returns (Some c2, None) w))"

subsection \<open>Reader operations\<close>

text \<open>
  \<^verbatim>\<open>Features\<close>, \<^verbatim>\<open>Body\<close> and \<^verbatim>\<open>Query\<close> call \<^verbatim>\<open>c.incoming.DecodeElement\<close>, send its
  error, if any, on \<^verbatim>\<open>c.errchan\<close>, and return what was decoded. The decoder moves on;
  the connection with the moved decoder is returned beside the result.
\<close>

definition after_send :: "unit outcome \<Rightarrow> 'a \<Rightarrow> 'a outcome" where
  "after_send r x =
     (case r of Returns u w \<Rightarrow> Returns x w | Panics \<Rightarrow> Panics | Blocks b \<Rightarrow> Blocks b)"

definition Features :: "Conn \<Rightarrow> world \<Rightarrow> (features \<times> Conn) outcome" where
  "Features c w =
     (case incoming c of
        None \<Rightarrow> Panics
      | Some d \<Rightarrow>
          (let r = unmarshal_features w (dec_src d) (dec_pos d);
               c1 = c\<lparr>incoming := Some (d\<lparr>dec_pos := dnext r\<rparr>)\<rparr>
           in case derr r of
                Some err \<Rightarrow> after_send (chan_send (errchan c) err w) (dvalue r, c1)
              | None \<Rightarrow> Returns (dvalue r, c1) w))"

definition Body :: "Conn \<Rightarrow> world \<Rightarrow> (string \<times> Conn) outcome" where
  "Body c w =
     (case incoming c of
        None \<Rightarrow> Panics
      | Some d \<Rightarrow>
          (let r = unmarshal_body w (dec_src d) (dec_pos d);
               c1 = c\<lparr>incoming := Some (d\<lparr>dec_pos := dnext r\<rparr>)\<rparr>
           in case derr r of
                Some err \<Rightarrow> after_send (chan_send (errchan c) err w) (body_Body (dvalue r), c1)
              | None \<Rightarrow> Returns (body_Body (dvalue r), c1) w))"

definition Query :: "Conn \<Rightarrow> world \<Rightarrow> (query \<times> Conn) outcome" where
  "Query c w =
     (case incoming c of
        None \<Rightarrow> Panics
      | Some d \<Rightarrow>
          (let r = unmarshal_query w (dec_src d) (dec_pos d);
               c1 = c\<lparr>incoming := Some (d\<lparr>dec_pos := dnext r\<rparr>)\<rparr>
           in case derr r of
                Some err \<Rightarrow> after_send (chan_send (errchan c) err w) (dvalue r, c1)
              | None \<Rightarrow> Returns (dvalue r, c1) w))"

text \<open>
  The loop of \<^verbatim>\<open>Next\<close>, over the results of the successive calls of \<^verbatim>\<open>Token()\<close> from
  position \<open>i\<close> on: \<open>None\<close> when it never returns. On an error of \<^verbatim>\<open>Token()\<close> it
  returns the zero \<^verbatim>\<open>xml.StartElement\<close> with the error.
\<close>

definition zero_StartElement :: xml_StartElement where
  "zero_StartElement = \<lparr>Elem_Name = \<lparr>Space = [], Local = []\<rparr>, Elem_Attr = []\<rparr>"

partial_function (option) Next_loop ::
  "(nat \<Rightarrow> error + token) \<Rightarrow> nat \<Rightarrow> ((xml_StartElement \<times> error option) \<times> nat) option" where
  "Next_loop toks i =
     (case toks i of
        Inl err \<Rightarrow> Some ((zero_StartElement, Some err), Suc i)
      | Inr t \<Rightarrow>
          (case t of
             StartElement element \<Rightarrow>
               if Local (Elem_Name element) = [] then
                 Some ((element, Some (errors_New ''invalid xml response'')), Suc i)
               else Some ((element, None), Suc i)
           | EndElement n \<Rightarrow> Next_loop toks (Suc i)
           | CharDataToken s \<Rightarrow> Next_loop toks (Suc i)
           | Comment s \<Rightarrow> Next_loop toks (Suc i)
           | ProcInst s1 s2 \<Rightarrow> Next_loop toks (Suc i)
           | Directive s \<Rightarrow> Next_loop toks (Suc i)))"

definition Next ::
  "Conn \<Rightarrow> world \<Rightarrow> ((xml_StartElement \<times> error option) \<times> Conn) outcome" where
  "Next c w =
     (case incoming c of
        None \<Rightarrow> Panics
      | Some d \<Rightarrow>
          (case Next_loop (inbound w (dec_src d)) (dec_pos d) of
             None \<Rightarrow> Blocks NoStartElement
           | Some (r, p) \<Rightarrow> Returns (r, c\<lparr>incoming := Some (d\<lparr>dec_pos := p\<rparr>)\<rparr>) w))"

subsection \<open>Well-formed XML, as far as the stanzas of the program go\<close>

text \<open>
  A checker for the XML the templates can produce: start tags with attributes,
  end tags, empty-element tags, character data and references. It reads the text one
  byte at a time and lists the tags and the decoded character data it finds. Comments,
  processing instructions, CDATA sections and names or character references beyond
  ASCII are refused: no template has them. Line ends are normalised first; attribute
  values are normalised (a tab or a line end in a value reads as a space); a repeated
  attribute name, a \<^verbatim>\<open><\<close> in a
  value, an unknown reference and \<^verbatim>\<open>]]>\<close> in character data are errors, as XML 1.0 has
  them.
\<close>

definition is_space :: "char \<Rightarrow> bool" where
  "is_space c = (c \<in> set [CHR 0x20, CHR 0x09, CHR 0x0A, CHR 0x0D])"

definition name_start :: "char \<Rightarrow> bool" where
  "name_start c = (c \<in> set ''abcdefghijklmnopqrstuvwxyzABCDEFGHIJKLMNOPQRSTUVWXYZ_:'')"

definition name_char :: "char \<Rightarrow> bool" where
  "name_char c = (name_start c \<or> c \<in> set ''0123456789-.'')"

definition ref_char :: "char \<Rightarrow> bool" where
  "ref_char c = (c \<in> set ''abcdefghijklmnopqrstuvwxyzABCDEFGHIJKLMNOPQRSTUVWXYZ0123456789#'')"

definition digit_of :: "char \<Rightarrow> nat option" where
  "digit_of c =
     (if c \<in> set ''0123456789'' then Some (of_char c - 48)
      else if c \<in> set ''abcdef'' then Some (of_char c - 87)
      else if c \<in> set ''ABCDEF'' then Some (of_char c - 55)
      else None)"

fun number_of :: "nat \<Rightarrow> nat \<Rightarrow> string \<Rightarrow> nat option" where
  "number_of base n [] = Some n"
| "number_of base n (c # cs) =
     (case digit_of c of
        None \<Rightarrow> None
      | Some d \<Rightarrow> if d < base then number_of base (base * n + d) cs else None)"

definition char_ref :: "nat \<Rightarrow> string \<Rightarrow> char option" where
  "char_ref base ds =
     (if ds = [] then None
      else case number_of base 0 ds of
        None \<Rightarrow> None
      | Some n \<Rightarrow>
          if n = 9 \<or> n = 10 \<or> n = 13 \<or> (32 \<le> n \<and> n < 128) then Some (char_of n) else None)"

definition decode_ref :: "string \<Rightarrow> char option" where
  "decode_ref r =
     (if r = ''lt'' then Some (CHR ''<'')
      else if r = ''gt'' then Some (CHR ''>'')
      else if r = ''amp'' then Some (CHR ''&'')
      else if r = ''apos'' then Some (CHR 0x27)
      else if r = ''quot'' then Some (CHR 0x22)
      else case r of
        [] \<Rightarrow> None
      | c # ds \<Rightarrow>
          if c \<noteq> CHR ''#'' then None
          else (case ds of
                  [] \<Rightarrow> None
                | d # hs \<Rightarrow> if d = CHR ''x'' then char_ref 16 hs else char_ref 10 ds))"

datatype xtoken =
    STag string "(string \<times> string) list"
  | ETag string
  | CharData string

datatype pstate =
    Content string nat
  | ContentRef string string
  | TagOpen
  | STagName string
  | STagGap string "(string \<times> string) list"
  | AttrName string "(string \<times> string) list" string
  | AttrEq string "(string \<times> string) list" string
  | AttrQuote string "(string \<times> string) list" string
  | AttrVal string "(string \<times> string) list" string char string
  | AttrRef string "(string \<times> string) list" string char string string
  | STagAfterVal string "(string \<times> string) list"
  | EmptyEnd string "(string \<times> string) list"
  | ETagOpen
  | ETagName string
  | ETagGap string
  | Bad

definition flush :: "string \<Rightarrow> xtoken list" where
  "flush txt = (if txt = [] then [] else [CharData txt])"

fun xml_step :: "xtoken list \<times> pstate \<Rightarrow> char \<Rightarrow> xtoken list \<times> pstate" where
  "xml_step (ts, Content txt k) c =
     (if c = CHR ''<'' then (ts @ flush txt, TagOpen)
      else if c = CHR ''&'' then (ts, ContentRef txt [])
      else if c = CHR '']'' then (ts, Content (txt @ [c]) (min 2 (Suc k)))
      else if c = CHR ''>'' \<and> k = 2 then (ts, Bad)
      else (ts, Content (txt @ [c]) 0))"
| "xml_step (ts, ContentRef txt r) c =
     (if c = CHR '';'' then
        (case decode_ref r of None \<Rightarrow> (ts, Bad) | Some d \<Rightarrow> (ts, Content (txt @ [d]) 0))
      else if ref_char c then (ts, ContentRef txt (r @ [c]))
      else (ts, Bad))"
| "xml_step (ts, TagOpen) c =
     (if c = CHR ''/'' then (ts, ETagOpen)
      else if name_start c then (ts, STagName [c])
      else (ts, Bad))"
| "xml_step (ts, STagName n) c =
     (if name_char c then (ts, STagName (n @ [c]))
      else if is_space c then (ts, STagGap n [])
      else if c = CHR ''>'' then (ts @ [STag n []], Content [] 0)
      else if c = CHR ''/'' then (ts, EmptyEnd n [])
      else (ts, Bad))"
| "xml_step (ts, STagGap n as) c =
     (if is_space c then (ts, STagGap n as)
      else if name_start c then (ts, AttrName n as [c])
      else if c = CHR ''>'' then (ts @ [STag n as], Content [] 0)
      else if c = CHR ''/'' then (ts, EmptyEnd n as)
      else (ts, Bad))"
| "xml_step (ts, AttrName n as a) c =
     (if name_char c then (ts, AttrName n as (a @ [c]))
      else if c = CHR ''='' then (ts, AttrQuote n as a)
      else if is_space c then (ts, AttrEq n as a)
      else (ts, Bad))"
| "xml_step (ts, AttrEq n as a) c =
     (if is_space c then (ts, AttrEq n as a)
      else if c = CHR ''='' then (ts, AttrQuote n as a)
      else (ts, Bad))"
| "xml_step (ts, AttrQuote n as a) c =
     (if is_space c then (ts, AttrQuote n as a)
      else if c = CHR 0x27 \<or> c = CHR 0x22 then (ts, AttrVal n as a c [])
      else (ts, Bad))"
| "xml_step (ts, AttrVal n as a q v) c =
     (if c = q then
        (if a \<in> set (map fst as) then (ts, Bad) else (ts, STagAfterVal n (as @ [(a, v)])))
      else if c = CHR ''<'' then (ts, Bad)
      else if c = CHR ''&'' then (ts, AttrRef n as a q v [])
      else if is_space c then (ts, AttrVal n as a q (v @ [CHR 0x20]))
      else (ts, AttrVal n as a q (v @ [c])))"
| "xml_step (ts, AttrRef n as a q v r) c =
     (if c = CHR '';'' then
        (case decode_ref r of None \<Rightarrow> (ts, Bad) | Some d \<Rightarrow> (ts, AttrVal n as a q (v @ [d])))
      else if ref_char c then (ts, AttrRef n as a q v (r @ [c]))
      else (ts, Bad))"
| "xml_step (ts, STagAfterVal n as) c =
     (if is_space c then (ts, STagGap n as)
      else if c = CHR ''>'' then (ts @ [STag n as], Content [] 0)
      else if c = CHR ''/'' then (ts, EmptyEnd n as)
      else (ts, Bad))"
| "xml_step (ts, EmptyEnd n as) c =
     (if c = CHR ''>'' then (ts @ [STag n as, ETag n], Content [] 0) else (ts, Bad))"
| "xml_step (ts, ETagOpen) c =
     (if name_start c then (ts, ETagName [c]) else (ts, Bad))"
| "xml_step (ts, ETagName n) c =
     (if name_char c then (ts, ETagName (n @ [c]))
      else if is_space c then (ts, ETagGap n)
      else if c = CHR ''>'' then (ts @ [ETag n], Content [] 0)
      else (ts, Bad))"
| "xml_step (ts, ETagGap n) c =
     (if is_space c then (ts, ETagGap n)
      else if c = CHR ''>'' then (ts @ [ETag n], Content [] 0)
      else (ts, Bad))"
| "xml_step (ts, Bad) c = (ts, Bad)"

datatype ustate = U0 | U1 | U2 | U2_E0 | U2_ED | U2_EF | U1_EFBF | U3 | U3_F0 | U3_F4 | UBad

definition cont_byte :: "nat \<Rightarrow> bool" where
  "cont_byte b = (0x80 \<le> b \<and> b \<le> 0xBF)"

fun utf8_step :: "ustate \<Rightarrow> char \<Rightarrow> ustate" where
  "utf8_step U0 c =
     (let b = of_char c :: nat in
      if b < 0x80 then (if b = 9 \<or> b = 10 \<or> b = 13 \<or> 0x20 \<le> b then U0 else UBad)
      else if 0xC2 \<le> b \<and> b \<le> 0xDF then U1
      else if b = 0xE0 then U2_E0
      else if b = 0xED then U2_ED
      else if b = 0xEF then U2_EF
      else if 0xE1 \<le> b \<and> b \<le> 0xEE then U2
      else if b = 0xF0 then U3_F0
      else if 0xF1 \<le> b \<and> b \<le> 0xF3 then U3
      else if b = 0xF4 then U3_F4
      else UBad)"
| "utf8_step U1 c = (if cont_byte (of_char c) then U0 else UBad)"
| "utf8_step U2 c = (if cont_byte (of_char c) then U1 else UBad)"
| "utf8_step U2_E0 c = (let b = of_char c :: nat in if 0xA0 \<le> b \<and> b \<le> 0xBF then U1 else UBad)"
| "utf8_step U2_ED c = (let b = of_char c :: nat in if 0x80 \<le> b \<and> b \<le> 0x9F then U1 else UBad)"
| "utf8_step U2_EF c =
     (let b = of_char c :: nat in
      if b = 0xBF then U1_EFBF else if cont_byte b then U1 else UBad)"
| "utf8_step U1_EFBF c = (let b = of_char c :: nat in if 0x80 \<le> b \<and> b \<le> 0xBD then U0 else UBad)"
| "utf8_step U3 c = (if cont_byte (of_char c) then U2 else UBad)"
| "utf8_step U3_F0 c = (let b = of_char c :: nat in if 0x90 \<le> b \<and> b \<le> 0xBF then U2 else UBad)"
| "utf8_step U3_F4 c = (let b = of_char c :: nat in if 0x80 \<le> b \<and> b \<le> 0x8F then U2 else UBad)"
| "utf8_step UBad c = UBad"

definition xml_chars :: "string \<Rightarrow> bool" where
  "xml_chars s = (foldl utf8_step U0 s = U0)"

text \<open>
  Line ends (XML 1.0, 2.11; \<^verbatim>\<open>encoding/xml\<close> does the same in text): before anything
  else is read, the two characters CR LF, and every CR that no LF follows, become one LF.
\<close>

fun line_ends :: "string \<Rightarrow> string" where
  "line_ends [] = []"
| "line_ends [c] = [if c = CHR 0x0D then CHR 0x0A else c]"
| "line_ends (c # d # s) =
     (if c = CHR 0x0D then
        (if d = CHR 0x0A then CHR 0x0A # line_ends s else CHR 0x0A # line_ends (d # s))
      else c # line_ends (d # s))"

text \<open>
  The tags and character data of a text: all its characters are legal, its line ends are
  normalised, and the scan ends outside every tag and reference.
\<close>

definition xml_tokens :: "string \<Rightarrow> xtoken list option" where
  "xml_tokens s =
     (if xml_chars s then
        (case foldl xml_step ([], Content [] 0) (line_ends s) of
           (ts, Content txt k) \<Rightarrow> Some (ts @ flush txt)
         | _ \<Rightarrow> None)
      else None)"

fun closes :: "string list \<Rightarrow> xtoken list \<Rightarrow> bool" where
  "closes [] ts = (ts = [])"
| "closes (m # st) [] = False"
| "closes (m # st) (STag n as # ts) = closes (n # m # st) ts"
| "closes (m # st) (ETag n # ts) = (m = n \<and> closes st ts)"
| "closes (m # st) (CharData txt # ts) = closes (m # st) ts"

definition wf_element :: "string \<Rightarrow> bool" where
  "wf_element s =
     (case xml_tokens s of
        Some (STag n as # ts) \<Rightarrow> closes [n] ts
      | _ \<Rightarrow> False)"

definition wf_start_tag :: "string \<Rightarrow> bool" where
  "wf_start_tag s = (case xml_tokens s of Some [STag n as] \<Rightarrow> True | _ \<Rightarrow> False)"


subsection \<open>Vocabulary of the properties\<close>

text \<open>A result of \<^verbatim>\<open>Token()\<close> that the loop of \<^verbatim>\<open>Next\<close> passes over.\<close>

definition skipped :: "error + token \<Rightarrow> bool" where
  "skipped r =
     (case r of
        Inl err \<Rightarrow> False
      | Inr t \<Rightarrow> (case t of StartElement element \<Rightarrow> False | _ \<Rightarrow> True))"

text \<open>
  A channel takes a value at once when it is open and a receiver waits or its buffer has
  room; \<open>delivered\<close> is the channel after it took the value.
\<close>

definition accepts :: "chan \<Rightarrow> bool" where
  "accepts st = (\<not> closed st \<and> (0 < receivers st \<or> length (buf st) < cap st))"

definition delivered :: "chan \<Rightarrow> error \<Rightarrow> chan" where
  "delivered st e =
     (if 0 < receivers st then st\<lparr>receivers := receivers st - 1, handed := handed st @ [e]\<rparr>
      else st\<lparr>buf := buf st @ [e]\<rparr>)"

text \<open>The world after a transport has accepted some more bytes.\<close>

definition appended :: "world \<Rightarrow> netconn \<Rightarrow> string \<Rightarrow> world" where
  "appended w conn p =
     w\<lparr>conns := (conns w)(conn := (conns w conn)\<lparr>sent := sent (conns w conn) @ p\<rparr>)\<rparr>"

text \<open>
  The nine writers that report on the error channel, as one family: a call, what running
  it means, the request id it draws first (if it draws one), and the text it formats.
\<close>

datatype writer_call =
    Stream_call string string
  | StartTLS_call
  | Auth_call string string string
  | Discover_call string string
  | Presence_call string string
  | MUCPart_call string
  | MUCPresence_call string string
  | MUCSend_call string string string string
  | Roster_call string string

fun run_writer :: "Conn \<Rightarrow> writer_call \<Rightarrow> world \<Rightarrow> unit outcome" where
  "run_writer c (Stream_call jid host) w = Stream c jid host w"
| "run_writer c StartTLS_call w = StartTLS_op c w"
| "run_writer c (Auth_call user pass resource) w = Auth c user pass resource w"
| "run_writer c (Discover_call from to) w = Discover c from to w"
| "run_writer c (Presence_call jid pres) w = Presence c jid pres w"
| "run_writer c (MUCPart_call roomId) w = MUCPart c roomId w"
| "run_writer c (MUCPresence_call roomId jid) w = MUCPresence c roomId jid w"
| "run_writer c (MUCSend_call mtype to from body) w = MUCSend c mtype to from body w"
| "run_writer c (Roster_call from to) w = Roster c from to w"

fun draws_id :: "writer_call \<Rightarrow> world \<Rightarrow> string \<times> world" where
  "draws_id (Stream_call jid host) w = ([], w)"
| "draws_id StartTLS_call w = ([], w)"
| "draws_id (Presence_call jid pres) w = ([], w)"
| "draws_id (MUCPart_call roomId) w = ([], w)"
| "draws_id call w = id_xmpp w"

fun fragment :: "writer_call \<Rightarrow> string \<Rightarrow> string" where
  "fragment (Stream_call jid host) i = Sprintf xmlStream [jid, host, NsJabberClient, NsStream]"
| "fragment StartTLS_call i = Sprintf xmlStartTLS [NsTLS]"
| "fragment (Auth_call user pass resource) i =
     Sprintf xmlIqSet [i, NsIqAuth, user, pass, resource]"
| "fragment (Discover_call from to) i = Sprintf xmlIqGet [from, to, i, NsDisco]"
| "fragment (Presence_call jid pres) i = Sprintf xmlPresence [jid, pres]"
| "fragment (MUCPart_call roomId) i = Sprintf xmlMUCPart [roomId]"
| "fragment (MUCPresence_call roomId jid) i = Sprintf xmlMUCPresence [i, roomId, jid, NsMuc]"
| "fragment (MUCSend_call mtype to from body) i =
     Sprintf xmlMUCMessage [from, i, to, mtype, EscapeString body]"
| "fragment (Roster_call from to) i = Sprintf xmlIqGet [from, to, i, NsIqRoster]"

text \<open>
  A string that can stand between apostrophes as an attribute value: no apostrophe, no
  \<^verbatim>\<open><\<close> and no \<^verbatim>\<open>&\<close>. The value then read is the string normalised, with a space
  for each tab and line break. A string that is read as it is has none of these either.
\<close>

definition attr_quotable :: "string \<Rightarrow> bool" where
  "attr_quotable s = list_all (\<lambda>c. c \<notin> set [CHR 0x27, CHR ''<'', CHR ''&'']) s"

definition attr_norm :: "string \<Rightarrow> string" where
  "attr_norm s = map (\<lambda>c. if is_space c then CHR 0x20 else c) s"

definition attr_safe :: "string \<Rightarrow> bool" where
  "attr_safe s =
     list_all (\<lambda>c. c \<notin> set [CHR 0x27, CHR ''<'', CHR ''&'', CHR 0x09, CHR 0x0A, CHR 0x0D]) s"

text \<open>
  XML decoding of character data alone: the string that a text with no markup in it
  stands for, read as \<open>xml_tokens\<close> reads the content of an element: every character
  legal, line ends normalised, references resolved.
\<close>

definition decode_text :: "string \<Rightarrow> string option" where
  "decode_text s =
     (if xml_chars s then
        (case foldl xml_step ([], Content [] 0) (line_ends s) of
           (ts, Content txt k) \<Rightarrow> if ts = [] then Some txt else None
         | _ \<Rightarrow> None)
      else None)"

text \<open>The zero values of the decoded structures.\<close>

definition zero_features :: features where
  "zero_features =
     \<lparr>features_XMLName = \<lparr>Space = [], Local = []\<rparr>, StartTLS = None, Mechanisms = []\<rparr>"

definition zero_query :: query where
  "zero_query = \<lparr>query_XMLName = \<lparr>Space = [], Local = []\<rparr>, Items = []\<rparr>"

definition zero_body :: body where
  "zero_body = \<lparr>body_Body = []\<rparr>"

text \<open>
  A world to run examples in: nobody listens, every transport accepts everything, what is
  read from one ends at once, no channel has room or a receiver, and the random source is
  dry.
\<close>

definition ex_world :: world where
  "ex_world =
     \<lparr>network = (\<lambda>n a. Inl (Error ''connection refused'')),
      conns = (\<lambda>conn. \<lparr>sent = [], wlimit = None, werror = Error ''broken pipe''\<rparr>),
      inbound = (\<lambda>conn i. Inl (Error ''EOF'')),
      unmarshal_features = (\<lambda>conn i. \<lparr>dvalue = zero_features, derr = Some (Error ''EOF''), dnext = i\<rparr>),
      unmarshal_body = (\<lambda>conn i. \<lparr>dvalue = zero_body, derr = Some (Error ''EOF''), dnext = i\<rparr>),
      unmarshal_query = (\<lambda>conn i. \<lparr>dvalue = zero_query, derr = Some (Error ''EOF''), dnext = i\<rparr>),
      chans = (\<lambda>i. \<lparr>cap = 0, buf = [], receivers = 0, handed = [], closed = False\<rparr>),
      rand_avail = [],
      rand_err = Error ''EOF'',
      stdout = []\<rparr>"

text \<open>
  Values for the examples: two start elements, a connection over socket 0 with no error
  channel, and variants of the world in which every transport is closed, every channel
  has room for one error, or both.
\<close>

definition ex_message :: xml_StartElement where
  "ex_message =
     \<lparr>Elem_Name = \<lparr>Space = ''jabber:client'', Local = ''message''\<rparr>,
      Elem_Attr = [\<lparr>Attr_Name = \<lparr>Space = [], Local = ''type''\<rparr>, Attr_Value = ''chat''\<rparr>]\<rparr>"

definition ex_nameless :: xml_StartElement where
  "ex_nameless = \<lparr>Elem_Name = \<lparr>Space = [], Local = []\<rparr>, Elem_Attr = []\<rparr>"

definition ex_conn :: Conn where
  "ex_conn = \<lparr>incoming = Some (xml_NewDecoder (TcpConn 0)), outgoing = TcpConn 0, errchan = None\<rparr>"

definition ex_closed :: world where
  "ex_closed =
     ex_world\<lparr>conns := \<lambda>conn. \<lparr>sent = [], wlimit = Some 0, werror = Error ''broken pipe''\<rparr>\<rparr>"

definition ex_closed_sink :: world where
  "ex_closed_sink =
     ex_closed\<lparr>chans := \<lambda>i. \<lparr>cap = 1, buf = [], receivers = 0, handed = [], closed = False\<rparr>\<rparr>"

definition ex_sink :: world where
  "ex_sink =
     ex_world\<lparr>chans := \<lambda>i. \<lparr>cap = 1, buf = [], receivers = 0, handed = [], closed = False\<rparr>\<rparr>"

section \<open>Properties\<close>

subsection \<open>ToMap\<close>

lemma ToMap_snoc:
  "ToMap (attr @ [a]) = (ToMap attr)(Local (Attr_Name a) \<mapsto> Attr_Value a)"
  by (simp add: ToMap_def)

lemma ToMap_last_wins:
  "ToMap attr k =
     (let named = filter (\<lambda>a. Local (Attr_Name a) = k) attr
      in if named = [] then None else Some (Attr_Value (last named)))"
proof (induction attr rule: rev_induct)
  case Nil
  show ?case by (simp add: ToMap_def)
next
  case (snoc a attr)
  show ?case
  proof (cases "Local (Attr_Name a) = k")
    case True
    then show ?thesis
      by (simp add: ToMap_snoc Let_def)
  next
    case False
    then show ?thesis
      using snoc.IH by (simp add: ToMap_snoc Let_def)
  qed
qed

lemma ToMap_Some_iff:
  assumes "distinct (map (\<lambda>a. Local (Attr_Name a)) attr)"
  shows "ToMap attr k = Some v \<longleftrightarrow>
    (\<exists>a \<in> set attr. Local (Attr_Name a) = k \<and> Attr_Value a = v)"
  using assms
proof (induction attr rule: rev_induct)
  case Nil
  show ?case by (simp add: ToMap_def)
next
  case (snoc a attr)
  have fresh: "\<forall>b \<in> set attr. Local (Attr_Name b) \<noteq> Local (Attr_Name a)"
    using snoc.prems by (force simp: image_iff)
  have ih: "ToMap attr k = Some v \<longleftrightarrow>
    (\<exists>b \<in> set attr. Local (Attr_Name b) = k \<and> Attr_Value b = v)"
    using snoc by simp
  show ?case
  proof (cases "Local (Attr_Name a) = k")
    case True
    then show ?thesis using fresh by (auto simp: ToMap_snoc)
  next
    case False
    then show ?thesis using ih by (auto simp: ToMap_snoc)
  qed
qed

lemma ToMap_perm:
  assumes d: "distinct (map (\<lambda>a. Local (Attr_Name a)) attr)"
    and p: "mset attr' = mset attr"
  shows "ToMap attr' = ToMap attr"
proof (rule ext)
  fix k
  have s: "set attr' = set attr"
    using p by (rule mset_eq_setD)
  have "mset (map (\<lambda>a. Local (Attr_Name a)) attr') = mset (map (\<lambda>a. Local (Attr_Name a)) attr)"
    using p by simp
  then have d': "distinct (map (\<lambda>a. Local (Attr_Name a)) attr')"
    using d by (metis mset_eq_imp_distinct_iff)
  show "ToMap attr' k = ToMap attr k"
  proof (cases "ToMap attr k")
    case None
    then have "\<forall>v. ToMap attr' k \<noteq> Some v"
      using ToMap_Some_iff [OF d] ToMap_Some_iff [OF d'] s by (metis option.distinct(1))
    then show ?thesis using None by (cases "ToMap attr' k") auto
  next
    case (Some v)
    then show ?thesis
      using ToMap_Some_iff [OF d] ToMap_Some_iff [OF d'] s by metis
  qed
qed

text \<open>
  Claim C8. Whenever no local name repeats in the attribute sequence, every permutation of
  it gives the same mapping; and in every sequence the entry of a local name is the value
  of the last attribute, in source order, that carries the name (no entry when none does).
\<close>

theorem ToMap_order_independent_last_wins:
  "(distinct (map (\<lambda>a. Local (Attr_Name a)) attr) \<and> mset attr' = mset attr
      \<longrightarrow> ToMap attr' = ToMap attr) \<and>
   ToMap attr k =
     (let named = filter (\<lambda>a. Local (Attr_Name a) = k) attr
      in if named = [] then None else Some (Attr_Value (last named)))"
  using ToMap_perm [of attr attr'] ToMap_last_wins [of attr k] by blast

text \<open>An instance of the theorem on ToMap: two orders of two attributes, and a repeated name.\<close>

theorem ToMap_order_independent_last_wins_witness:
  "ToMap [\<lparr>Attr_Name = \<lparr>Space = [], Local = ''to''\<rparr>, Attr_Value = ''b''\<rparr>,
          \<lparr>Attr_Name = \<lparr>Space = [], Local = ''from''\<rparr>, Attr_Value = ''a''\<rparr>] =
   ToMap [\<lparr>Attr_Name = \<lparr>Space = [], Local = ''from''\<rparr>, Attr_Value = ''a''\<rparr>,
          \<lparr>Attr_Name = \<lparr>Space = [], Local = ''to''\<rparr>, Attr_Value = ''b''\<rparr>] \<and>
   ToMap [\<lparr>Attr_Name = \<lparr>Space = [], Local = ''id''\<rparr>, Attr_Value = ''1''\<rparr>,
          \<lparr>Attr_Name = \<lparr>Space = ''x'', Local = ''id''\<rparr>, Attr_Value = ''2''\<rparr>] ''id'' = Some ''2''"
  using ToMap_order_independent_last_wins
    [of "[\<lparr>Attr_Name = \<lparr>Space = [], Local = ''from''\<rparr>, Attr_Value = ''a''\<rparr>,
          \<lparr>Attr_Name = \<lparr>Space = [], Local = ''to''\<rparr>, Attr_Value = ''b''\<rparr>]"
        "[\<lparr>Attr_Name = \<lparr>Space = [], Local = ''to''\<rparr>, Attr_Value = ''b''\<rparr>,
          \<lparr>Attr_Name = \<lparr>Space = [], Local = ''from''\<rparr>, Attr_Value = ''a''\<rparr>]"]
    ToMap_order_independent_last_wins
    [of "[\<lparr>Attr_Name = \<lparr>Space = [], Local = ''id''\<rparr>, Attr_Value = ''1''\<rparr>,
          \<lparr>Attr_Name = \<lparr>Space = ''x'', Local = ''id''\<rparr>, Attr_Value = ''2''\<rparr>]" _ "''id''"]
  by simp

subsection \<open>Next\<close>

lemma Next_loop_skip1:
  "skipped (toks i) \<Longrightarrow> Next_loop toks i = Next_loop toks (Suc i)"
  by (subst Next_loop.simps) (auto simp: skipped_def split: sum.splits token.splits)

lemma Next_loop_skip:
  "(\<forall>j<n. skipped (toks (i + j))) \<Longrightarrow> Next_loop toks i = Next_loop toks (i + n)"
proof (induction n arbitrary: i)
  case 0
  show ?case by simp
next
  case (Suc n)
  have "skipped (toks i)" using Suc.prems by force
  then have "Next_loop toks i = Next_loop toks (Suc i)" by (rule Next_loop_skip1)
  also have "\<dots> = Next_loop toks (Suc i + n)"
  proof (rule Suc.IH)
    show "\<forall>j<n. skipped (toks (Suc i + j))"
      using Suc.prems by (metis Suc_less_eq add_Suc_shift)
  qed
  finally show ?case by simp
qed


lemma Next_loop_stop:
  "\<not> skipped (toks i) \<Longrightarrow>
   Next_loop toks i =
     (case toks i of
        Inl err \<Rightarrow> Some ((zero_StartElement, Some err), Suc i)
      | Inr t \<Rightarrow>
          (case t of
             StartElement element \<Rightarrow>
               if Local (Elem_Name element) = [] then
                 Some ((element, Some (errors_New ''invalid xml response'')), Suc i)
               else Some ((element, None), Suc i)
           | _ \<Rightarrow> None))"
  by (subst Next_loop.simps) (auto simp: skipped_def split: sum.splits token.splits)

lemma Next_loop_Some_stops:
  assumes "Next_loop toks i = Some y"
  shows "\<exists>n. (\<forall>j<n. skipped (toks (i + j))) \<and> \<not> skipped (toks (i + n))"
proof (rule Next_loop.raw_induct
    [where P = "\<lambda>toks i y. \<exists>n. (\<forall>j<n. skipped (toks (i + j))) \<and> \<not> skipped (toks (i + n))",
      OF _ assms], goal_cases)
  case (1 f toks i y)
  show ?case
  proof (cases "skipped (toks i)")
    case False
    then have "(\<forall>j<0. skipped (toks (i + j))) \<and> \<not> skipped (toks (i + 0))" by simp
    then show ?thesis by blast
  next
    case True
    then have "f toks (Suc i) = Some y"
      using 1(2) by (auto simp: skipped_def split: sum.splits token.splits)
    then obtain n where n: "\<forall>j<n. skipped (toks (Suc i + j))" "\<not> skipped (toks (Suc i + n))"
      using 1(1) by blast
    have "\<forall>j<Suc n. skipped (toks (i + j))"
    proof (intro allI impI)
      fix j assume "j < Suc n"
      then show "skipped (toks (i + j))"
        using True n(1) by (cases j) auto
    qed
    moreover have "\<not> skipped (toks (i + Suc n))" using n(2) by simp
    ultimately show ?thesis by blast
  qed
qed

lemma Next_loop_never:
  "(\<forall>j. skipped (toks (i + j))) \<Longrightarrow> Next_loop toks i = None"
  using Next_loop_Some_stops [of toks i] by (cases "Next_loop toks i") auto

lemma Next_loop_named:
  "Next_loop toks i = Some ((element, None), p) \<Longrightarrow> Local (Elem_Name element) \<noteq> []"
proof -
  assume r: "Next_loop toks i = Some ((element, None), p)"
  then obtain n where n: "\<forall>j<n. skipped (toks (i + j))" "\<not> skipped (toks (i + n))"
    using Next_loop_Some_stops by blast
  have "Next_loop toks (i + n) = Some ((element, None), p)"
    using r Next_loop_skip [OF n(1)] by simp
  then show ?thesis
    using Next_loop_stop [of toks "i + n"] n(2)
    by (auto split: sum.splits token.splits if_splits)
qed


text \<open>
  Claim C2. \<^verbatim>\<open>Next\<close> passes over every result of \<^verbatim>\<open>Token()\<close> that is a token
  other than a start element, and stops at the first result that is not: a start element
  with a local name is returned with no error; a start element with the empty local name
  is returned with the error "invalid xml response"; an error of \<^verbatim>\<open>Token()\<close> (the
  transport failed, or the XML is broken) is returned with the zero element. It never
  returns a start element with the empty local name and no error. When no such result
  ever comes, it does not return.
\<close>

theorem Next_first_start_element:
  "(incoming c = Some d \<and> toks = inbound w (dec_src d) \<and>
      (\<forall>j<n. skipped (toks (dec_pos d + j))) \<longrightarrow>
      (toks (dec_pos d + n) = Inr (StartElement element) \<and> Local (Elem_Name element) \<noteq> []
         \<longrightarrow> Next c w =
               Returns ((element, None),
                        c\<lparr>incoming := Some (d\<lparr>dec_pos := Suc (dec_pos d + n)\<rparr>)\<rparr>) w) \<and>
      (toks (dec_pos d + n) = Inr (StartElement element) \<and> Local (Elem_Name element) = []
         \<longrightarrow> Next c w =
               Returns ((element, Some (errors_New ''invalid xml response'')),
                        c\<lparr>incoming := Some (d\<lparr>dec_pos := Suc (dec_pos d + n)\<rparr>)\<rparr>) w) \<and>
      (toks (dec_pos d + n) = Inl err
         \<longrightarrow> Next c w =
               Returns ((zero_StartElement, Some err),
                        c\<lparr>incoming := Some (d\<lparr>dec_pos := Suc (dec_pos d + n)\<rparr>)\<rparr>) w)) \<and>
   (incoming c = Some d \<and> (\<forall>j. skipped (inbound w (dec_src d) (dec_pos d + j)))
      \<longrightarrow> Next c w = Blocks NoStartElement) \<and>
   (Next c w = Returns ((element, None), c') w' \<longrightarrow> Local (Elem_Name element) \<noteq> [])"
proof (intro conjI impI)
  assume h: "incoming c = Some d \<and> toks = inbound w (dec_src d) \<and>
      (\<forall>j<n. skipped (toks (dec_pos d + j)))"
  then have skip: "Next_loop toks (dec_pos d) = Next_loop toks (dec_pos d + n)"
    using Next_loop_skip by blast
  {
    assume "toks (dec_pos d + n) = Inr (StartElement element) \<and> Local (Elem_Name element) \<noteq> []"
    then have "Next_loop toks (dec_pos d + n) = Some ((element, None), Suc (dec_pos d + n))"
      by (subst Next_loop.simps) simp
    then show "Next c w =
               Returns ((element, None),
                        c\<lparr>incoming := Some (d\<lparr>dec_pos := Suc (dec_pos d + n)\<rparr>)\<rparr>) w"
      using h skip by (simp add: Next_def)
  }
  {
    assume "toks (dec_pos d + n) = Inr (StartElement element) \<and> Local (Elem_Name element) = []"
    then have "Next_loop toks (dec_pos d + n) =
        Some ((element, Some (errors_New ''invalid xml response'')), Suc (dec_pos d + n))"
      by (subst Next_loop.simps) simp
    then show "Next c w =
               Returns ((element, Some (errors_New ''invalid xml response'')),
                        c\<lparr>incoming := Some (d\<lparr>dec_pos := Suc (dec_pos d + n)\<rparr>)\<rparr>) w"
      using h skip by (simp add: Next_def)
  }
  {
    assume "toks (dec_pos d + n) = Inl err"
    then have "Next_loop toks (dec_pos d + n) =
        Some ((zero_StartElement, Some err), Suc (dec_pos d + n))"
      by (subst Next_loop.simps) simp
    then show "Next c w =
               Returns ((zero_StartElement, Some err),
                        c\<lparr>incoming := Some (d\<lparr>dec_pos := Suc (dec_pos d + n)\<rparr>)\<rparr>) w"
      using h skip by (simp add: Next_def)
  }
next
  assume "incoming c = Some d \<and> (\<forall>j. skipped (inbound w (dec_src d) (dec_pos d + j)))"
  then show "Next c w = Blocks NoStartElement"
    using Next_loop_never [of "inbound w (dec_src d)" "dec_pos d"] by (simp add: Next_def)
next
  assume "Next c w = Returns ((element, None), c') w'"
  then show "Local (Elem_Name element) \<noteq> []"
    by (auto simp: Next_def split: option.splits dest: Next_loop_named)
qed

theorem Next_first_start_element_witness:
  "Next ex_conn
     (ex_world\<lparr>inbound := \<lambda>conn i.
        if i = 0 then Inr (CharDataToken '' '') else Inr (StartElement ex_message)\<rparr>) =
   Returns ((ex_message, None), ex_conn\<lparr>incoming := Some \<lparr>dec_src = TcpConn 0, dec_pos = 2\<rparr>\<rparr>)
     (ex_world\<lparr>inbound := \<lambda>conn i.
        if i = 0 then Inr (CharDataToken '' '') else Inr (StartElement ex_message)\<rparr>) \<and>
   Next ex_conn
     (ex_world\<lparr>inbound := \<lambda>conn i.
        if i = 0 then Inr (Comment ''x'') else Inr (StartElement ex_nameless)\<rparr>) =
   Returns ((ex_nameless, Some (Error ''invalid xml response'')),
            ex_conn\<lparr>incoming := Some \<lparr>dec_src = TcpConn 0, dec_pos = 2\<rparr>\<rparr>)
     (ex_world\<lparr>inbound := \<lambda>conn i.
        if i = 0 then Inr (Comment ''x'') else Inr (StartElement ex_nameless)\<rparr>) \<and>
   Next ex_conn
     (ex_world\<lparr>inbound := \<lambda>conn i.
        if i = 0 then Inr (EndElement \<lparr>Space = [], Local = ''a''\<rparr>) else Inl (Error ''EOF'')\<rparr>) =
   Returns ((zero_StartElement, Some (Error ''EOF'')),
            ex_conn\<lparr>incoming := Some \<lparr>dec_src = TcpConn 0, dec_pos = 2\<rparr>\<rparr>)
     (ex_world\<lparr>inbound := \<lambda>conn i.
        if i = 0 then Inr (EndElement \<lparr>Space = [], Local = ''a''\<rparr>) else Inl (Error ''EOF'')\<rparr>) \<and>
   Next ex_conn (ex_world\<lparr>inbound := \<lambda>conn i. Inr (CharDataToken '' '')\<rparr>) =
   Blocks NoStartElement"
proof -
  let ?d = "xml_NewDecoder (TcpConn 0)"
  let ?t1 = "\<lambda>(conn::netconn) i::nat.
        if i = 0 then Inr (CharDataToken '' '') else Inr (StartElement ex_message)"
  let ?t2 = "\<lambda>(conn::netconn) i::nat.
        if i = 0 then Inr (Comment ''x'') else Inr (StartElement ex_nameless)"
  let ?t3 = "\<lambda>(conn::netconn) i::nat.
        if i = 0 then Inr (EndElement \<lparr>Space = [], Local = ''a''\<rparr>) else Inl (Error ''EOF'')"
  let ?t4 = "\<lambda>(conn::netconn) i::nat. (Inr (CharDataToken '' '') :: error + token)"
  have a: "Next ex_conn (ex_world\<lparr>inbound := ?t1\<rparr>) =
      Returns ((ex_message, None), ex_conn\<lparr>incoming := Some (?d\<lparr>dec_pos := Suc (dec_pos ?d + 1)\<rparr>)\<rparr>)
        (ex_world\<lparr>inbound := ?t1\<rparr>)"
    using Next_first_start_element
      [of ex_conn ?d "?t1 (TcpConn 0)" "ex_world\<lparr>inbound := ?t1\<rparr>" 1 ex_message]
    by (simp add: ex_conn_def xml_NewDecoder_def skipped_def ex_message_def)
  have b: "Next ex_conn (ex_world\<lparr>inbound := ?t2\<rparr>) =
      Returns ((ex_nameless, Some (errors_New ''invalid xml response'')),
        ex_conn\<lparr>incoming := Some (?d\<lparr>dec_pos := Suc (dec_pos ?d + 1)\<rparr>)\<rparr>)
        (ex_world\<lparr>inbound := ?t2\<rparr>)"
    using Next_first_start_element
      [of ex_conn ?d "?t2 (TcpConn 0)" "ex_world\<lparr>inbound := ?t2\<rparr>" 1 ex_nameless]
    by (simp add: ex_conn_def xml_NewDecoder_def skipped_def ex_nameless_def)
  have c: "Next ex_conn (ex_world\<lparr>inbound := ?t3\<rparr>) =
      Returns ((zero_StartElement, Some (Error ''EOF'')),
        ex_conn\<lparr>incoming := Some (?d\<lparr>dec_pos := Suc (dec_pos ?d + 1)\<rparr>)\<rparr>)
        (ex_world\<lparr>inbound := ?t3\<rparr>)"
    using Next_first_start_element
      [of ex_conn ?d "?t3 (TcpConn 0)" "ex_world\<lparr>inbound := ?t3\<rparr>" 1 _ "Error ''EOF''"]
    by (simp add: ex_conn_def xml_NewDecoder_def skipped_def)
  have d: "Next ex_conn (ex_world\<lparr>inbound := ?t4\<rparr>) = Blocks NoStartElement"
    using Next_first_start_element
      [of ex_conn ?d _ "ex_world\<lparr>inbound := ?t4\<rparr>"]
    by (simp add: ex_conn_def xml_NewDecoder_def skipped_def)
  show ?thesis
    using a b c d by (simp add: xml_NewDecoder_def errors_New_def)
qed

subsection \<open>Channels and transports\<close>

lemma chan_send_nil: "chan_send None e w = Blocks NilChannel"
  by (simp add: chan_send_def)

lemma chan_send_accepts:
  "accepts (chans w i) \<Longrightarrow>
   chan_send (Some i) e w = Returns () (w\<lparr>chans := (chans w)(i := delivered (chans w i) e)\<rparr>)"
  by (auto simp: chan_send_def accepts_def delivered_def Let_def)

lemma chan_send_closed: "closed (chans w i) \<Longrightarrow> chan_send (Some i) e w = Panics"
  by (simp add: chan_send_def)

lemma chan_send_full:
  "\<not> closed (chans w i) \<Longrightarrow> \<not> accepts (chans w i) \<Longrightarrow>
   chan_send (Some i) e w = Blocks (FullChannel i)"
  by (auto simp: chan_send_def accepts_def Let_def)

lemma conn_Write_unlimited:
  "backed conn \<Longrightarrow> wlimit (conns w conn) = None \<Longrightarrow>
   conn_Write conn p w = Some ((length p, None), appended w conn p)"
  by (simp add: conn_Write_def appended_def Let_def)

lemma conn_Write_room:
  "backed conn \<Longrightarrow> wlimit (conns w conn) = Some n \<Longrightarrow> length p \<le> n \<Longrightarrow>
   conn_Write conn p w =
     Some ((length p, None),
       w\<lparr>conns := (conns w)
         (conn := (conns w conn)\<lparr>sent := sent (conns w conn) @ p, wlimit := Some (n - length p)\<rparr>)\<rparr>)"
  by (simp add: conn_Write_def Let_def)

lemma conn_Write_fails:
  "backed conn \<Longrightarrow> wlimit (conns w conn) = Some n \<Longrightarrow> n < length p \<Longrightarrow>
   conn_Write conn p w =
     Some ((n, Some (werror (conns w conn))),
       w\<lparr>conns := (conns w)
         (conn := (conns w conn)\<lparr>sent := sent (conns w conn) @ take n p, wlimit := Some 0\<rparr>)\<rparr>)"
  by (simp add: conn_Write_def Let_def)

lemma conn_Write_nil: "\<not> backed conn \<Longrightarrow> conn_Write conn p w = None"
  by (simp add: conn_Write_def Let_def)

text \<open>
  Claim C5. On a connection that has a transport, \<^verbatim>\<open>KeepAlive\<close> writes the one byte
  0x20. When the transport takes it, \<^verbatim>\<open>KeepAlive\<close> returns the nil error and the
  transport has got exactly that byte; when the write fails, it returns the error of the
  write to its caller; in no case does it change a channel. (On a connection without a
  transport the write panics.)
\<close>

theorem KeepAlive_one_byte_error_returned:
  "backed (outgoing c) \<longrightarrow>
     (wlimit (conns w (outgoing c)) = None \<longrightarrow>
        KeepAlive c w = Returns None (appended w (outgoing c) [CHR 0x20])) \<and>
     (wlimit (conns w (outgoing c)) = Some (Suc n) \<longrightarrow>
        KeepAlive c w =
          Returns None
            (w\<lparr>conns := (conns w)(outgoing c := (conns w (outgoing c))
               \<lparr>sent := sent (conns w (outgoing c)) @ [CHR 0x20], wlimit := Some n\<rparr>)\<rparr>)) \<and>
     (wlimit (conns w (outgoing c)) = Some 0 \<longrightarrow>
        KeepAlive c w = Returns (Some (werror (conns w (outgoing c)))) w) \<and>
     (\<forall>r w'. KeepAlive c w = Returns r w' \<longrightarrow> chans w' = chans w)"
proof (intro impI conjI allI)
  assume b: "backed (outgoing c)"
  {
    assume "wlimit (conns w (outgoing c)) = None"
    then show "KeepAlive c w = Returns None (appended w (outgoing c) [CHR 0x20])"
      using b by (simp add: KeepAlive_def fmt_Fprintf_def conn_Write_unlimited)
  }
  {
    assume "wlimit (conns w (outgoing c)) = Some (Suc n)"
    then show "KeepAlive c w =
          Returns None
            (w\<lparr>conns := (conns w)(outgoing c := (conns w (outgoing c))
               \<lparr>sent := sent (conns w (outgoing c)) @ [CHR 0x20], wlimit := Some n\<rparr>)\<rparr>)"
      using b conn_Write_room [of "outgoing c" w "Suc n" "'' ''"]
      by (simp add: KeepAlive_def fmt_Fprintf_def)
  }
  {
    assume z: "wlimit (conns w (outgoing c)) = Some 0"
    have "(conns w (outgoing c))\<lparr>sent := sent (conns w (outgoing c)), wlimit := Some 0\<rparr> =
        conns w (outgoing c)"
      using z by simp
    then have "w\<lparr>conns := (conns w)(outgoing c := (conns w (outgoing c))
        \<lparr>sent := sent (conns w (outgoing c)) @ take 0 '' '', wlimit := Some 0\<rparr>)\<rparr> = w"
      by simp
    then show "KeepAlive c w = Returns (Some (werror (conns w (outgoing c)))) w"
      using b z conn_Write_fails [of "outgoing c" w 0 "'' ''"]
      by (simp add: KeepAlive_def fmt_Fprintf_def)
  }
  {
    fix r w'
    assume "KeepAlive c w = Returns r w'"
    then show "chans w' = chans w"
      by (auto simp: KeepAlive_def fmt_Fprintf_def conn_Write_def Let_def
          split: option.splits if_splits)
  }
qed

text \<open>
  Claim C6. \<^verbatim>\<open>Dial host\<close> dials the network "tcp" at the address \<^verbatim>\<open>host:5222\<close>. When
  that gives a connection, it returns a \<^verbatim>\<open>Conn\<close> that writes to it and whose decoder
  reads from it, with the nil error; when it gives an error, it returns the error with a
  \<^verbatim>\<open>Conn\<close> that is not nil and has every field at its zero value.
\<close>

theorem Dial_tcp_5222:
  "(network w ''tcp'' (host @ '':5222'') = Inr conn \<longrightarrow>
      Dial host w =
        Returns (Some \<lparr>incoming = Some \<lparr>dec_src = conn, dec_pos = 0\<rparr>,
                       outgoing = conn, errchan = None\<rparr>, None) w) \<and>
   (network w ''tcp'' (host @ '':5222'') = Inl err \<longrightarrow>
      Dial host w =
        Returns (Some \<lparr>incoming = None, outgoing = NilConn, errchan = None\<rparr>, Some err) w)"
  by (simp add: Dial_def new_Conn_def xml_NewDecoder_def Let_def)


subsection \<open>Writers\<close>

lemma id_xmpp_keeps:
  "id_xmpp w = (i, w1) \<Longrightarrow> conns w1 = conns w \<and> chans w1 = chans w"
  by (auto simp: id_xmpp_def io_ReadFull_rand_def Let_def split: if_splits)

lemma draws_id_keeps:
  "draws_id call w = (i, w1) \<Longrightarrow> conns w1 = conns w \<and> chans w1 = chans w"
  by (cases call) (auto dest: id_xmpp_keeps)

lemma run_writer_eq:
  "run_writer c call w =
     (case draws_id call w of
        (i, w1) \<Rightarrow> report c (conn_Write (outgoing c) (fragment call i) w1))"
  by (cases call)
    (simp_all add: Stream_def StartTLS_op_def Auth_def Discover_def Presence_def MUCPart_def
      MUCPresence_def MUCSend_def Roster_def fmt_Fprintf_def)

lemma run_writer_writes:
  assumes "backed (outgoing c)" "wlimit (conns w (outgoing c)) = None"
    "draws_id call w = (i, w1)"
  shows "run_writer c call w = Returns () (appended w1 (outgoing c) (fragment call i))"
proof -
  have "wlimit (conns w1 (outgoing c)) = None"
    using assms(2) draws_id_keeps [OF assms(3)] by simp
  then show ?thesis
    using assms(1,3) by (simp add: run_writer_eq conn_Write_unlimited report_def)
qed

text \<open>
  Claim C4, as the code has it. Each of the nine writers formats its text and writes it
  in one call. When the write fails, the writer sends the error on the connection's error
  channel with an ordinary (blocking) send: with no channel set the call blocks for ever;
  with a channel that takes the value at once (a receiver waits, or the buffer has room)
  the error is delivered to it and the writer returns; with a closed channel it panics;
  with an open channel that has neither room nor a receiver the writer is parked on the
  send. When the transport takes the whole text, nothing is sent on the channel and the
  writer returns, the text written.
\<close>

theorem writer_error_goes_to_channel:
  "backed (outgoing c) \<and> draws_id call w = (rid, w1) \<longrightarrow>
     (wlimit (conns w (outgoing c)) = Some n \<and> n < length (fragment call rid) \<longrightarrow>
        (errchan c = None \<longrightarrow> run_writer c call w = Blocks NilChannel) \<and>
        (errchan c = Some i \<and> accepts (chans w i) \<longrightarrow>
           run_writer c call w =
             Returns ()
               (w1\<lparr>conns := (conns w)(outgoing c := (conns w (outgoing c))
                      \<lparr>sent := sent (conns w (outgoing c)) @ take n (fragment call rid),
                       wlimit := Some 0\<rparr>),
                    chans := (chans w)
                      (i := delivered (chans w i) (werror (conns w (outgoing c))))\<rparr>)) \<and>
        (errchan c = Some i \<and> closed (chans w i) \<longrightarrow> run_writer c call w = Panics) \<and>
        (errchan c = Some i \<and> \<not> closed (chans w i) \<and> \<not> accepts (chans w i) \<longrightarrow>
           run_writer c call w = Blocks (FullChannel i))) \<and>
     (wlimit (conns w (outgoing c)) = None \<longrightarrow>
        run_writer c call w = Returns () (appended w1 (outgoing c) (fragment call rid))) \<and>
     (wlimit (conns w (outgoing c)) = Some n \<and> length (fragment call rid) \<le> n \<longrightarrow>
        run_writer c call w =
          Returns ()
            (w1\<lparr>conns := (conns w)(outgoing c := (conns w (outgoing c))
                   \<lparr>sent := sent (conns w (outgoing c)) @ fragment call rid,
                    wlimit := Some (n - length (fragment call rid))\<rparr>)\<rparr>))"
proof (intro impI)
  assume h: "backed (outgoing c) \<and> draws_id call w = (rid, w1)"
  then have k: "conns w1 = conns w" "chans w1 = chans w"
    using draws_id_keeps by blast+
  let ?w2 = "w1\<lparr>conns := (conns w1)(outgoing c := (conns w1 (outgoing c))
                      \<lparr>sent := sent (conns w1 (outgoing c)) @ take n (fragment call rid),
                       wlimit := Some 0\<rparr>)\<rparr>"
  have fails: "run_writer c call w = chan_send (errchan c) (werror (conns w (outgoing c))) ?w2"
    if "wlimit (conns w (outgoing c)) = Some n \<and> n < length (fragment call rid)"
    using h that k conn_Write_fails [of "outgoing c" w1 n "fragment call rid"]
    by (simp add: run_writer_eq report_def)
  have ok: "run_writer c call w = Returns () (appended w1 (outgoing c) (fragment call rid))"
    if "wlimit (conns w (outgoing c)) = None"
    using h that k conn_Write_unlimited [of "outgoing c" w1 "fragment call rid"]
    by (simp add: run_writer_eq report_def)
  have ch: "chans ?w2 = chans w" using k by simp
  show "(wlimit (conns w (outgoing c)) = Some n \<and> n < length (fragment call rid) \<longrightarrow>
        (errchan c = None \<longrightarrow> run_writer c call w = Blocks NilChannel) \<and>
        (errchan c = Some i \<and> accepts (chans w i) \<longrightarrow>
           run_writer c call w =
             Returns ()
               (w1\<lparr>conns := (conns w)(outgoing c := (conns w (outgoing c))
                      \<lparr>sent := sent (conns w (outgoing c)) @ take n (fragment call rid),
                       wlimit := Some 0\<rparr>),
                    chans := (chans w)
                      (i := delivered (chans w i) (werror (conns w (outgoing c))))\<rparr>)) \<and>
        (errchan c = Some i \<and> closed (chans w i) \<longrightarrow> run_writer c call w = Panics) \<and>
        (errchan c = Some i \<and> \<not> closed (chans w i) \<and> \<not> accepts (chans w i) \<longrightarrow>
           run_writer c call w = Blocks (FullChannel i))) \<and>
     (wlimit (conns w (outgoing c)) = None \<longrightarrow>
        run_writer c call w = Returns () (appended w1 (outgoing c) (fragment call rid))) \<and>
     (wlimit (conns w (outgoing c)) = Some n \<and> length (fragment call rid) \<le> n \<longrightarrow>
        run_writer c call w =
          Returns ()
            (w1\<lparr>conns := (conns w)(outgoing c := (conns w (outgoing c))
                   \<lparr>sent := sent (conns w (outgoing c)) @ fragment call rid,
                    wlimit := Some (n - length (fragment call rid))\<rparr>)\<rparr>))"
  proof (intro conjI impI)
    assume f: "wlimit (conns w (outgoing c)) = Some n \<and> n < length (fragment call rid)"
    {
      assume "errchan c = None"
      then show "run_writer c call w = Blocks NilChannel"
        using fails [OF f] by (simp add: chan_send_nil)
    }
    {
      assume a: "errchan c = Some i \<and> accepts (chans w i)"
      then have "accepts (chans ?w2 i)" using ch by simp
      then have "chan_send (Some i) (werror (conns w (outgoing c))) ?w2 =
          Returns () (?w2\<lparr>chans := (chans ?w2)
            (i := delivered (chans ?w2 i) (werror (conns w (outgoing c))))\<rparr>)"
        by (rule chan_send_accepts)
      then show "run_writer c call w =
             Returns ()
               (w1\<lparr>conns := (conns w)(outgoing c := (conns w (outgoing c))
                      \<lparr>sent := sent (conns w (outgoing c)) @ take n (fragment call rid),
                       wlimit := Some 0\<rparr>),
                    chans := (chans w)
                      (i := delivered (chans w i) (werror (conns w (outgoing c))))\<rparr>)"
        using fails [OF f] a k by simp
    }
    {
      assume a: "errchan c = Some i \<and> closed (chans w i)"
      then have "closed (chans ?w2 i)" using ch by simp
      then show "run_writer c call w = Panics"
        using fails [OF f] a chan_send_closed by metis
    }
    {
      assume a: "errchan c = Some i \<and> \<not> closed (chans w i) \<and> \<not> accepts (chans w i)"
      then have "\<not> closed (chans ?w2 i)" "\<not> accepts (chans ?w2 i)" using ch by simp_all
      then show "run_writer c call w = Blocks (FullChannel i)"
        using fails [OF f] a chan_send_full by metis
    }
  next
    assume "wlimit (conns w (outgoing c)) = None"
    then show "run_writer c call w = Returns () (appended w1 (outgoing c) (fragment call rid))"
      by (rule ok)
  next
    assume "wlimit (conns w (outgoing c)) = Some n \<and> length (fragment call rid) \<le> n"
    then show "run_writer c call w =
          Returns ()
            (w1\<lparr>conns := (conns w)(outgoing c := (conns w (outgoing c))
                   \<lparr>sent := sent (conns w (outgoing c)) @ fragment call rid,
                    wlimit := Some (n - length (fragment call rid))\<rparr>)\<rparr>)"
      using h k conn_Write_room [of "outgoing c" w1 n "fragment call rid"]
      by (simp add: run_writer_eq report_def)
  qed
qed


lemma replicate_8: "replicate 8 x = [x, x, x, x, x, x, x, x]"
  by (simp add: numeral_eq_Suc)

text \<open>
  On a closed connection with no error channel set, \<^verbatim>\<open>Stream\<close> does not drop the
  error and return: it blocks for ever on the send on the nil channel.
\<close>

theorem Stream_without_channel_counterexample:
  "Stream ex_conn ''u@example.com'' ''example.com'' ex_closed = Blocks NilChannel"
  by (simp add: Stream_def report_def fmt_Fprintf_def conn_Write_def chan_send_def ex_conn_def
      ex_closed_def ex_world_def xmlStream_def Let_def)

text \<open>
  Instances: leaving a room on a closed connection without a channel; a roster request on
  a closed connection with a channel of capacity one; a STARTTLS request on a closed
  connection whose channel has no room; the same request on a connection that works.
\<close>

theorem writer_error_goes_to_channel_witness:
  "run_writer ex_conn (MUCPart_call ''room'') ex_closed = Blocks NilChannel \<and>
   run_writer (SetErrorChannel ex_conn (Some 0)) (Roster_call ''u@example.com'' ''example.com'') ex_closed_sink =
     Returns ()
       (ex_closed_sink\<lparr>stdout := ''error generating id: EOF'',
          chans := (chans ex_closed_sink)(0 := \<lparr>cap = 1, buf = [Error ''broken pipe''],
            receivers = 0, handed = [], closed = False\<rparr>)\<rparr>) \<and>
   run_writer (SetErrorChannel ex_conn (Some 0)) StartTLS_call ex_closed = Blocks (FullChannel 0) \<and>
   run_writer ex_conn StartTLS_call ex_world =
     Returns () (appended ex_world (TcpConn 0) ''<starttls xmlns='urn:ietf:params:xml:ns:xmpp-tls'/>'')"
proof -
  have a: "run_writer ex_conn (MUCPart_call ''room'') ex_closed = Blocks NilChannel"
    using writer_error_goes_to_channel
      [of ex_conn "MUCPart_call ''room''" ex_closed "[]" ex_closed 0]
    by (simp add: ex_conn_def ex_closed_def ex_world_def xmlMUCPart_def)
  have b: "run_writer (SetErrorChannel ex_conn (Some 0))
      (Roster_call ''u@example.com'' ''example.com'') ex_closed_sink =
     Returns ()
       (ex_closed_sink\<lparr>stdout := ''error generating id: EOF'',
          chans := (chans ex_closed_sink)(0 := \<lparr>cap = 1, buf = [Error ''broken pipe''],
            receivers = 0, handed = [], closed = False\<rparr>)\<rparr>)"
    using writer_error_goes_to_channel
      [of "SetErrorChannel ex_conn (Some 0)" "Roster_call ''u@example.com'' ''example.com''"
        ex_closed_sink "''0000000000000000''"
        "ex_closed_sink\<lparr>stdout := ''error generating id: EOF''\<rparr>" 0 0]
    by (simp add: ex_conn_def ex_closed_sink_def ex_closed_def ex_world_def xmlIqGet_def
        SetErrorChannel_def accepts_def delivered_def id_xmpp_def io_ReadFull_rand_def
        Sprintf_x_def hex_digit_def replicate_8 fun_upd_idem_iff)
  have c: "run_writer (SetErrorChannel ex_conn (Some 0)) StartTLS_call ex_closed =
      Blocks (FullChannel 0)"
    using writer_error_goes_to_channel
      [of "SetErrorChannel ex_conn (Some 0)" StartTLS_call ex_closed "[]" ex_closed 0 0]
    by (simp add: ex_conn_def ex_closed_def ex_world_def xmlStartTLS_def SetErrorChannel_def
        accepts_def)
  have d: "run_writer ex_conn StartTLS_call ex_world =
     Returns () (appended ex_world (TcpConn 0) ''<starttls xmlns='urn:ietf:params:xml:ns:xmpp-tls'/>'')"
    using writer_error_goes_to_channel [of ex_conn StartTLS_call ex_world "[]" ex_world]
    by (simp add: ex_conn_def ex_world_def xmlStartTLS_def NsTLS_def)
  show ?thesis using a b c d by simp
qed


text \<open>Instances: a keepalive on a connection that works, and on a closed one.\<close>

theorem KeepAlive_one_byte_error_returned_witness:
  "KeepAlive ex_conn ex_world = Returns None (appended ex_world (TcpConn 0) [CHR 0x20]) \<and>
   KeepAlive ex_conn ex_closed = Returns (Some (Error ''broken pipe'')) ex_closed"
  using KeepAlive_one_byte_error_returned [of ex_conn ex_world]
    KeepAlive_one_byte_error_returned [of ex_conn ex_closed]
  by (simp add: ex_conn_def ex_closed_def ex_world_def)

text \<open>Instances: nobody listens; a server listens at chat.example.com:5222.\<close>

theorem Dial_tcp_5222_witness:
  "Dial ''chat.example.com'' ex_world =
     Returns (Some \<lparr>incoming = None, outgoing = NilConn, errchan = None\<rparr>,
              Some (Error ''connection refused'')) ex_world \<and>
   Dial ''chat.example.com''
     (ex_world\<lparr>network := \<lambda>n a.
        if n = ''tcp'' \<and> a = ''chat.example.com:5222'' then Inr (TcpConn 7)
        else Inl (Error ''connection refused'')\<rparr>) =
     Returns (Some \<lparr>incoming = Some \<lparr>dec_src = TcpConn 7, dec_pos = 0\<rparr>,
                    outgoing = TcpConn 7, errchan = None\<rparr>, None)
       (ex_world\<lparr>network := \<lambda>n a.
          if n = ''tcp'' \<and> a = ''chat.example.com:5222'' then Inr (TcpConn 7)
          else Inl (Error ''connection refused'')\<rparr>)"
  using Dial_tcp_5222 [of ex_world "''chat.example.com''" _ "Error ''connection refused''"]
    Dial_tcp_5222 [of "ex_world\<lparr>network := \<lambda>n a.
          if n = ''tcp'' \<and> a = ''chat.example.com:5222'' then Inr (TcpConn 7)
          else Inl (Error ''connection refused'')\<rparr>" "''chat.example.com''" "TcpConn 7"]
  by (simp add: ex_world_def)

subsection \<open>Readers\<close>

lemma Next_keeps_world: "Next c w = Returns r w' \<Longrightarrow> w' = w"
  by (auto simp: Next_def split: option.splits)

lemma Next_token_error:
  "incoming c = Some d \<Longrightarrow> inbound w (dec_src d) (dec_pos d) = Inl err \<Longrightarrow>
   Next c w =
     Returns ((zero_StartElement, Some err), c\<lparr>incoming := Some (d\<lparr>dec_pos := Suc (dec_pos d)\<rparr>)\<rparr>) w"
  by (simp add: Next_def Next_loop.simps)

text \<open>
  Claim C3, as the code has it. \<^verbatim>\<open>Next\<close> hands the error of \<^verbatim>\<open>Token()\<close> to its
  caller as its second result and leaves the world, and with it every channel, as it
  was. \<^verbatim>\<open>Features\<close>, \<^verbatim>\<open>Body\<close> and \<^verbatim>\<open>Query\<close> have no error result: when
  \<^verbatim>\<open>DecodeElement\<close> fails they send its error on the connection's error channel with a
  blocking send (with no channel set the call blocks for ever; a channel that takes the
  value at once gets it), and return what was decoded.
\<close>

theorem reader_errors:
  "(Next c w = Returns r w' \<longrightarrow> w' = w) \<and>
   (incoming c = Some d \<and> inbound w (dec_src d) (dec_pos d) = Inl err \<longrightarrow>
      Next c w =
        Returns ((zero_StartElement, Some err),
                 c\<lparr>incoming := Some (d\<lparr>dec_pos := Suc (dec_pos d)\<rparr>)\<rparr>) w) \<and>
   (incoming c = Some d \<and> unmarshal_features w (dec_src d) (dec_pos d) = rf \<and>
    derr rf = Some err \<longrightarrow>
      (errchan c = None \<longrightarrow> Features c w = Blocks NilChannel) \<and>
      (errchan c = Some i \<and> accepts (chans w i) \<longrightarrow>
         Features c w =
           Returns (dvalue rf, c\<lparr>incoming := Some (d\<lparr>dec_pos := dnext rf\<rparr>)\<rparr>)
             (w\<lparr>chans := (chans w)(i := delivered (chans w i) err)\<rparr>))) \<and>
   (incoming c = Some d \<and> unmarshal_body w (dec_src d) (dec_pos d) = rb \<and>
    derr rb = Some err \<longrightarrow>
      (errchan c = None \<longrightarrow> Body c w = Blocks NilChannel) \<and>
      (errchan c = Some i \<and> accepts (chans w i) \<longrightarrow>
         Body c w =
           Returns (body_Body (dvalue rb), c\<lparr>incoming := Some (d\<lparr>dec_pos := dnext rb\<rparr>)\<rparr>)
             (w\<lparr>chans := (chans w)(i := delivered (chans w i) err)\<rparr>))) \<and>
   (incoming c = Some d \<and> unmarshal_query w (dec_src d) (dec_pos d) = rq \<and>
    derr rq = Some err \<longrightarrow>
      (errchan c = None \<longrightarrow> Query c w = Blocks NilChannel) \<and>
      (errchan c = Some i \<and> accepts (chans w i) \<longrightarrow>
         Query c w =
           Returns (dvalue rq, c\<lparr>incoming := Some (d\<lparr>dec_pos := dnext rq\<rparr>)\<rparr>)
             (w\<lparr>chans := (chans w)(i := delivered (chans w i) err)\<rparr>)))"
proof (intro conjI)
  show "Next c w = Returns r w' \<longrightarrow> w' = w"
    using Next_keeps_world by blast
  show "incoming c = Some d \<and> inbound w (dec_src d) (dec_pos d) = Inl err \<longrightarrow>
      Next c w =
        Returns ((zero_StartElement, Some err),
                 c\<lparr>incoming := Some (d\<lparr>dec_pos := Suc (dec_pos d)\<rparr>)\<rparr>) w"
    using Next_token_error by blast
  show "incoming c = Some d \<and> unmarshal_features w (dec_src d) (dec_pos d) = rf \<and>
    derr rf = Some err \<longrightarrow>
      (errchan c = None \<longrightarrow> Features c w = Blocks NilChannel) \<and>
      (errchan c = Some i \<and> accepts (chans w i) \<longrightarrow>
         Features c w =
           Returns (dvalue rf, c\<lparr>incoming := Some (d\<lparr>dec_pos := dnext rf\<rparr>)\<rparr>)
             (w\<lparr>chans := (chans w)(i := delivered (chans w i) err)\<rparr>))"
    by (auto simp: Features_def after_send_def chan_send_nil chan_send_accepts Let_def)
  show "incoming c = Some d \<and> unmarshal_body w (dec_src d) (dec_pos d) = rb \<and>
    derr rb = Some err \<longrightarrow>
      (errchan c = None \<longrightarrow> Body c w = Blocks NilChannel) \<and>
      (errchan c = Some i \<and> accepts (chans w i) \<longrightarrow>
         Body c w =
           Returns (body_Body (dvalue rb), c\<lparr>incoming := Some (d\<lparr>dec_pos := dnext rb\<rparr>)\<rparr>)
             (w\<lparr>chans := (chans w)(i := delivered (chans w i) err)\<rparr>))"
    by (auto simp: Body_def after_send_def chan_send_nil chan_send_accepts Let_def)
  show "incoming c = Some d \<and> unmarshal_query w (dec_src d) (dec_pos d) = rq \<and>
    derr rq = Some err \<longrightarrow>
      (errchan c = None \<longrightarrow> Query c w = Blocks NilChannel) \<and>
      (errchan c = Some i \<and> accepts (chans w i) \<longrightarrow>
         Query c w =
           Returns (dvalue rq, c\<lparr>incoming := Some (d\<lparr>dec_pos := dnext rq\<rparr>)\<rparr>)
             (w\<lparr>chans := (chans w)(i := delivered (chans w i) err)\<rparr>))"
    by (auto simp: Query_def after_send_def chan_send_nil chan_send_accepts Let_def)
qed

text \<open>
  \<^verbatim>\<open>Features\<close> on a stream that has ended, with an error channel of capacity one: the
  caller gets the zero structure and no error; the error is in the channel.
\<close>

theorem Features_error_on_channel_counterexample:
  "Features (SetErrorChannel ex_conn (Some 0)) ex_sink =
     Returns (zero_features, SetErrorChannel ex_conn (Some 0))
       (ex_sink\<lparr>chans := (chans ex_sink)
          (0 := \<lparr>cap = 1, buf = [Error ''EOF''], receivers = 0, handed = [], closed = False\<rparr>)\<rparr>)"
  by (simp add: Features_def after_send_def chan_send_def SetErrorChannel_def ex_conn_def
      ex_sink_def ex_world_def xml_NewDecoder_def Let_def)

text \<open>
  Instances, on a stream that has ended: \<^verbatim>\<open>Next\<close> and \<^verbatim>\<open>Body\<close> with an error channel
  of capacity one, \<^verbatim>\<open>Query\<close> with none.
\<close>

theorem reader_errors_witness:
  "Next (SetErrorChannel ex_conn (Some 0)) ex_sink =
     Returns ((zero_StartElement, Some (Error ''EOF'')),
       \<lparr>incoming = Some \<lparr>dec_src = TcpConn 0, dec_pos = 1\<rparr>, outgoing = TcpConn 0,
        errchan = Some 0\<rparr>) ex_sink \<and>
   Body (SetErrorChannel ex_conn (Some 0)) ex_sink =
     Returns ([], SetErrorChannel ex_conn (Some 0))
       (ex_sink\<lparr>chans := (chans ex_sink)
          (0 := \<lparr>cap = 1, buf = [Error ''EOF''], receivers = 0, handed = [], closed = False\<rparr>)\<rparr>) \<and>
   Query ex_conn ex_sink = Blocks NilChannel"
proof -
  let ?c = "SetErrorChannel ex_conn (Some 0)"
  let ?d = "xml_NewDecoder (TcpConn 0)"
  have a: "Next ?c ex_sink =
     Returns ((zero_StartElement, Some (Error ''EOF'')),
       ?c\<lparr>incoming := Some (?d\<lparr>dec_pos := Suc (dec_pos ?d)\<rparr>)\<rparr>) ex_sink"
    using reader_errors [where c = ?c and w = ex_sink and d = ?d and err = "Error ''EOF''"]
    by (simp add: SetErrorChannel_def ex_conn_def ex_sink_def ex_world_def xml_NewDecoder_def)
  have b: "Body ?c ex_sink =
     Returns (body_Body zero_body, ?c\<lparr>incoming := Some (?d\<lparr>dec_pos := 0\<rparr>)\<rparr>)
       (ex_sink\<lparr>chans := (chans ex_sink)(0 := delivered (chans ex_sink 0) (Error ''EOF''))\<rparr>)"
    using reader_errors [where c = ?c and w = ex_sink and d = ?d and err = "Error ''EOF''"
        and i = 0 and rb = "\<lparr>dvalue = zero_body, derr = Some (Error ''EOF''), dnext = 0\<rparr>"]
    by (simp add: SetErrorChannel_def ex_conn_def ex_sink_def ex_world_def xml_NewDecoder_def
        accepts_def)
  have c: "Query ex_conn ex_sink = Blocks NilChannel"
    using reader_errors [where c = ex_conn and w = ex_sink and d = ?d and err = "Error ''EOF''"
        and rq = "\<lparr>dvalue = zero_query, derr = Some (Error ''EOF''), dnext = 0\<rparr>"]
    by (simp add: ex_conn_def ex_sink_def ex_world_def xml_NewDecoder_def)
  show ?thesis
    using a b c
    by (simp add: SetErrorChannel_def ex_conn_def ex_sink_def ex_world_def xml_NewDecoder_def
        delivered_def zero_body_def)
qed

subsection \<open>UseTLS\<close>

lemma TlsConn_fresh: "TlsConn conn host \<noteq> conn"
  by (induction conn) auto

lemma report_conns:
  "report c (conn_Write conn p w) = Returns u w' \<Longrightarrow> x \<noteq> conn \<Longrightarrow> conns w' x = conns w x"
  by (auto simp: report_def conn_Write_def chan_send_def Let_def
      split: option.splits if_splits)

lemma run_writer_other_conns:
  assumes "run_writer c call w = Returns u w'" and "x \<noteq> outgoing c"
  shows "conns w' x = conns w x"
proof -
  obtain i w1 where d: "draws_id call w = (i, w1)" by (cases "draws_id call w")
  then have "report c (conn_Write (outgoing c) (fragment call i) w1) = Returns u w'"
    using assms(1) by (simp add: run_writer_eq)
  then have "conns w' x = conns w1 x"
    using assms(2) report_conns by blast
  then show ?thesis using draws_id_keeps [OF d] by simp
qed

text \<open>
  Claim C9. After \<^verbatim>\<open>UseTLS\<close> the connection writes to the TLS client wrapped around
  the socket it had, and its decoder is a new one that reads from that same TLS client.
  Neither field is the socket it had: what a writer or \<^verbatim>\<open>KeepAlive\<close> writes afterwards
  is handed to the TLS client and not written to that socket directly, and \<^verbatim>\<open>Next\<close>
  reads what the TLS client delivers, from its start.
\<close>

theorem UseTLS_rebinds:
  "outgoing (UseTLS c host) = TlsConn (outgoing c) host \<and>
   incoming (UseTLS c host) = Some \<lparr>dec_src = TlsConn (outgoing c) host, dec_pos = 0\<rparr> \<and>
   errchan (UseTLS c host) = errchan c \<and>
   outgoing (UseTLS c host) \<noteq> outgoing c \<and>
   (\<forall>d. incoming (UseTLS c host) = Some d \<longrightarrow> dec_src d \<noteq> outgoing c) \<and>
   (run_writer (UseTLS c host) call w = Returns u w' \<longrightarrow>
      conns w' (outgoing c) = conns w (outgoing c)) \<and>
   (KeepAlive (UseTLS c host) w = Returns r w' \<longrightarrow>
      conns w' (outgoing c) = conns w (outgoing c)) \<and>
   (backed (outgoing c) \<and> wlimit (conns w (TlsConn (outgoing c) host)) = None \<and>
    draws_id call w = (i, w1) \<longrightarrow>
      run_writer (UseTLS c host) call w =
        Returns () (appended w1 (TlsConn (outgoing c) host) (fragment call i))) \<and>
   Next (UseTLS c host) w =
     (case Next_loop (inbound w (TlsConn (outgoing c) host)) 0 of
        None \<Rightarrow> Blocks NoStartElement
      | Some (r, p) \<Rightarrow>
          Returns (r, (UseTLS c host)
            \<lparr>incoming := Some \<lparr>dec_src = TlsConn (outgoing c) host, dec_pos = p\<rparr>\<rparr>) w)"
proof -
  have o: "outgoing (UseTLS c host) = TlsConn (outgoing c) host"
    by (simp add: UseTLS_def tls_Client_def Let_def)
  have i: "incoming (UseTLS c host) = Some \<lparr>dec_src = TlsConn (outgoing c) host, dec_pos = 0\<rparr>"
    by (simp add: UseTLS_def tls_Client_def xml_NewDecoder_def Let_def)
  have e: "errchan (UseTLS c host) = errchan c"
    by (simp add: UseTLS_def Let_def)
  have n: "outgoing c \<noteq> outgoing (UseTLS c host)"
    using o TlsConn_fresh [of "outgoing c" host] by simp
  have w: "run_writer (UseTLS c host) call w = Returns u w' \<longrightarrow>
      conns w' (outgoing c) = conns w (outgoing c)"
    using run_writer_other_conns n by blast
  have k: "KeepAlive (UseTLS c host) w = Returns r w' \<longrightarrow>
      conns w' (outgoing c) = conns w (outgoing c)"
    using n by (auto simp: KeepAlive_def fmt_Fprintf_def conn_Write_def Let_def
        split: option.splits if_splits)
  have x: "Next (UseTLS c host) w =
     (case Next_loop (inbound w (TlsConn (outgoing c) host)) 0 of
        None \<Rightarrow> Blocks NoStartElement
      | Some (r, p) \<Rightarrow>
          Returns (r, (UseTLS c host)
            \<lparr>incoming := Some \<lparr>dec_src = TlsConn (outgoing c) host, dec_pos = p\<rparr>\<rparr>) w)"
    by (simp add: Next_def i split: option.splits)
  have t: "backed (outgoing c) \<and> wlimit (conns w (TlsConn (outgoing c) host)) = None \<and>
    draws_id call w = (i, w1) \<longrightarrow>
      run_writer (UseTLS c host) call w =
        Returns () (appended w1 (TlsConn (outgoing c) host) (fragment call i))"
    using run_writer_writes [of "UseTLS c host" w call i w1] o by simp
  show ?thesis
    using o i e n w k t x by (simp add: TlsConn_fresh)
qed


text \<open>An instance: the example connection upgraded, then a keepalive.\<close>

theorem UseTLS_rebinds_witness:
  "outgoing (UseTLS ex_conn ''example.com'') = TlsConn (TcpConn 0) ''example.com'' \<and>
   incoming (UseTLS ex_conn ''example.com'') =
     Some \<lparr>dec_src = TlsConn (TcpConn 0) ''example.com'', dec_pos = 0\<rparr> \<and>
   KeepAlive (UseTLS ex_conn ''example.com'') ex_world =
     Returns None (appended ex_world (TlsConn (TcpConn 0) ''example.com'') [CHR 0x20]) \<and>
   conns (appended ex_world (TlsConn (TcpConn 0) ''example.com'') [CHR 0x20]) (TcpConn 0) =
     conns ex_world (TcpConn 0)"
proof -
  have k: "KeepAlive (UseTLS ex_conn ''example.com'') ex_world =
     Returns None (appended ex_world (TlsConn (TcpConn 0) ''example.com'') [CHR 0x20])"
    by (simp add: KeepAlive_def fmt_Fprintf_def conn_Write_def UseTLS_def tls_Client_def
        appended_def ex_conn_def ex_world_def Let_def)
  show ?thesis
    using k UseTLS_rebinds [where c = ex_conn and host = "''example.com''" and w = ex_world
        and w' = "appended ex_world (TlsConn (TcpConn 0) ''example.com'') [CHR 0x20]"
        and r = None]
    by (simp add: ex_conn_def)
qed

subsection \<open>What the writers format\<close>

lemma fragment_Stream:
  "fragment (Stream_call jid host) i =
     ''<stream:stream from='' @ [CHR 0x27] @ jid @ [CHR 0x27] @ '' to='' @ [CHR 0x27] @ host @
     [CHR 0x27] @
     '' version='1.0' xml:lang='en' xmlns='jabber:client' xmlns:stream='http://etherx.jabber.org/streams'>''"
  by (simp add: xmlStream_def NsJabberClient_def NsStream_def)

lemma scan_attr_value:
  "attr_quotable s \<Longrightarrow>
   foldl xml_step (ts, AttrVal n as a (CHR 0x27) v) s =
     (ts, AttrVal n as a (CHR 0x27) (v @ attr_norm s))"
proof (induction s arbitrary: v)
  case Nil
  show ?case by (simp add: attr_norm_def)
next
  case (Cons c s)
  then have c: "c \<noteq> CHR 0x27" "c \<noteq> CHR ''<''" "c \<noteq> CHR ''&''" and s: "attr_quotable s"
    by (simp_all add: attr_quotable_def)
  have "xml_step (ts, AttrVal n as a (CHR 0x27) v) c =
      (ts, AttrVal n as a (CHR 0x27) (v @ attr_norm [c]))"
    using c by (simp add: attr_norm_def)
  then show ?case
    using Cons.IH [OF s, of "v @ attr_norm [c]"] by (simp add: attr_norm_def)
qed

lemma attr_safe_quotable: "attr_safe s \<Longrightarrow> attr_quotable s \<and> attr_norm s = s"
  by (induction s) (auto simp: attr_safe_def attr_quotable_def attr_norm_def is_space_def)

lemmas char_class_defs = is_space_def name_start_def name_char_def ref_char_def

lemma line_ends_Cons: "c \<noteq> CHR 0x0D \<Longrightarrow> line_ends (c # s) = c # line_ends s"
  by (cases s) auto

lemma line_ends_append_plain: "CHR 0x0D \<notin> set a \<Longrightarrow> line_ends (a @ b) = a @ line_ends b"
  by (induction a) (auto simp: line_ends_Cons)

lemma line_ends_plain: "CHR 0x0D \<notin> set s \<Longrightarrow> line_ends s = s"
  using line_ends_append_plain [of s "[]"] by simp

lemma line_ends_append_Cons:
  "c \<noteq> CHR 0x0A \<Longrightarrow> line_ends (a @ c # b) = line_ends a @ line_ends (c # b)"
  by (induction a rule: line_ends.induct) auto

lemma line_ends_Nil_iff: "line_ends s = [] \<longleftrightarrow> s = []"
  by (induction s rule: line_ends.induct) auto

lemma attr_quotable_line_ends: "attr_quotable s \<Longrightarrow> attr_quotable (line_ends s)"
  by (induction s rule: line_ends.induct) (auto simp: attr_quotable_def)

lemma attr_safe_plain: "attr_safe s \<Longrightarrow> CHR 0x0D \<notin> set s"
  by (induction s) (auto simp: attr_safe_def)

lemma EscapeString_Cons_plain:
  "c \<notin> set [CHR ''&'', CHR 0x27, CHR ''<'', CHR ''>'', CHR 0x22] \<Longrightarrow>
   EscapeString (c # s) = c # EscapeString s"
  by simp

lemma line_ends_escaped_char:
  "c \<noteq> CHR 0x0D \<Longrightarrow>
   line_ends ((if c = CHR ''&'' then ''&amp;''
       else if c = CHR 0x27 then ''&#39;''
       else if c = CHR ''<'' then ''&lt;''
       else if c = CHR ''>'' then ''&gt;''
       else if c = CHR 0x22 then ''&#34;''
       else [c]) @ t) =
   (if c = CHR ''&'' then ''&amp;''
       else if c = CHR 0x27 then ''&#39;''
       else if c = CHR ''<'' then ''&lt;''
       else if c = CHR ''>'' then ''&gt;''
       else if c = CHR 0x22 then ''&#34;''
       else [c]) @ line_ends t"
  by (rule line_ends_append_plain) auto

lemma EscapeString_not_LF_first:
  "d \<noteq> CHR 0x0A \<Longrightarrow> \<exists>e t. EscapeString (d # s) = e # t \<and> e \<noteq> CHR 0x0A"
  by auto

lemma line_ends_EscapeString: "line_ends (EscapeString s) = EscapeString (line_ends s)"
proof (induction s rule: line_ends.induct)
  case 1
  show ?case by simp
next
  case (2 c)
  show ?case
  proof (cases "c = CHR 0x0D")
    case True
    then show ?thesis by simp
  next
    case False
    then show ?thesis
      using line_ends_escaped_char [OF False, of "[]"] by simp
  qed
next
  case (3 c d s)
  show ?case
  proof (cases "c = CHR 0x0D")
    case False
    have "line_ends (EscapeString (c # d # s)) =
        (if c = CHR ''&'' then ''&amp;''
         else if c = CHR 0x27 then ''&#39;''
         else if c = CHR ''<'' then ''&lt;''
         else if c = CHR ''>'' then ''&gt;''
         else if c = CHR 0x22 then ''&#34;''
         else [c]) @ line_ends (EscapeString (d # s))"
      using line_ends_escaped_char [OF False, of "EscapeString (d # s)"] by simp
    also have "line_ends (EscapeString (d # s)) = EscapeString (line_ends (d # s))"
      using 3(3) False by simp
    finally show ?thesis using False by simp
  next
    case True
    show ?thesis
    proof (cases "d = CHR 0x0A")
      case l: True
      have "line_ends (EscapeString (c # d # s)) = CHR 0x0A # line_ends (EscapeString s)"
        using True l by simp
      then show ?thesis using True l 3(1) by simp
    next
      case n: False
      obtain e t where e: "EscapeString (d # s) = e # t" "e \<noteq> CHR 0x0A"
        using EscapeString_not_LF_first [OF n] by blast
      have "EscapeString (c # d # s) = CHR 0x0D # e # t"
        using True e(1) by simp
      then have "line_ends (EscapeString (c # d # s)) = CHR 0x0A # line_ends (e # t)"
        using e(2) by simp
      then have "line_ends (EscapeString (c # d # s)) =
          CHR 0x0A # EscapeString (line_ends (d # s))"
        using e(1) 3(2) True n by simp
      then show ?thesis using True n by simp
    qed
  qed
qed

lemma tokens_Stream:
  assumes "attr_safe jid" "attr_safe host" "xml_chars jid" "xml_chars host"
  shows "xml_tokens (fragment (Stream_call jid host) i) =
    Some [STag ''stream:stream''
      [(''from'', jid), (''to'', host), (''version'', ''1.0''), (''xml:lang'', ''en''),
       (''xmlns'', ''jabber:client''), (''xmlns:stream'', ''http://etherx.jabber.org/streams'')]]"
proof -
  have u: "xml_chars (fragment (Stream_call jid host) i)"
    using assms(3,4) unfolding fragment_Stream xml_chars_def
    by (simp add: cont_byte_def)
  have l: "line_ends jid = jid" "line_ends host = host"
    using assms(1,2) attr_safe_plain line_ends_plain by blast+
  have p: "foldl xml_step ([], Content [] 0) (line_ends (fragment (Stream_call jid host) i)) =
    ([STag ''stream:stream''
      [(''from'', jid), (''to'', host), (''version'', ''1.0''), (''xml:lang'', ''en''),
       (''xmlns'', ''jabber:client''), (''xmlns:stream'', ''http://etherx.jabber.org/streams'')]],
     Content [] 0)"
    using attr_safe_quotable [OF assms(1)] attr_safe_quotable [OF assms(2)] l
    unfolding fragment_Stream
    by (simp add: line_ends_Cons line_ends_append_Cons scan_attr_value char_class_defs flush_def)
  show ?thesis
    using u p by (simp add: xml_tokens_def flush_def)
qed

lemma decode_ref_39: "decode_ref ''#39'' = Some (CHR 0x27)"
  by code_simp

lemma decode_ref_34: "decode_ref ''#34'' = Some (CHR 0x22)"
  by code_simp

lemma decode_ref_named:
  "decode_ref ''amp'' = Some (CHR ''&'')" "decode_ref ''lt'' = Some (CHR ''<'')"
  "decode_ref ''gt'' = Some (CHR ''>'')"
  by (simp_all add: decode_ref_def)

lemma scan_escaped:
  "\<exists>k'. foldl xml_step (ts, Content acc k) (EscapeString s) = (ts, Content (acc @ s) k')"
proof (induction s arbitrary: acc k)
  case Nil
  show ?case by simp
next
  case (Cons c s)
  have "\<exists>k1. foldl xml_step (ts, Content acc k)
      (if c = CHR ''&'' then ''&amp;''
       else if c = CHR 0x27 then ''&#39;''
       else if c = CHR ''<'' then ''&lt;''
       else if c = CHR ''>'' then ''&gt;''
       else if c = CHR 0x22 then ''&#34;''
       else [c]) = (ts, Content (acc @ [c]) k1)"
    by (simp add: ref_char_def decode_ref_39 decode_ref_34 decode_ref_named)
  then obtain k1 where k1: "foldl xml_step (ts, Content acc k)
      (if c = CHR ''&'' then ''&amp;''
       else if c = CHR 0x27 then ''&#39;''
       else if c = CHR ''<'' then ''&lt;''
       else if c = CHR ''>'' then ''&gt;''
       else if c = CHR 0x22 then ''&#34;''
       else [c]) = (ts, Content (acc @ [c]) k1)" by blast
  obtain k' where "foldl xml_step (ts, Content (acc @ [c]) k1) (EscapeString s) =
      (ts, Content ((acc @ [c]) @ s) k')"
    using Cons.IH by blast
  then have "foldl xml_step (ts, Content acc k) (EscapeString (c # s)) =
      (ts, Content (acc @ c # s) k')"
    using k1 by (simp del: foldl_Cons)
  then show ?case by blast
qed

lemma utf8_bad: "foldl utf8_step UBad s = UBad"
  by (induction s) auto

lemma utf8_escaped_char:
  "foldl utf8_step st
      (if c = CHR ''&'' then ''&amp;''
       else if c = CHR 0x27 then ''&#39;''
       else if c = CHR ''<'' then ''&lt;''
       else if c = CHR ''>'' then ''&gt;''
       else if c = CHR 0x22 then ''&#34;''
       else [c]) = utf8_step st c"
  by (cases st) (simp_all add: cont_byte_def)

lemma utf8_EscapeString:
  "foldl utf8_step st (EscapeString s) = foldl utf8_step st s"
proof (induction s arbitrary: st)
  case Nil
  show ?case by simp
next
  case (Cons c s)
  show ?case
    using utf8_escaped_char [of st c] Cons.IH [of "utf8_step st c"]
    by (simp del: foldl_Cons add: foldl_Cons [of utf8_step st c s])
qed

lemma xml_chars_EscapeString: "xml_chars (EscapeString s) = xml_chars s"
  by (simp add: xml_chars_def utf8_EscapeString)

lemma decode_text_EscapeString:
  "xml_chars s \<Longrightarrow> decode_text (EscapeString s) = Some (line_ends s)"
proof -
  assume c: "xml_chars s"
  obtain k' where "foldl xml_step ([], Content [] 0) (EscapeString (line_ends s)) =
      ([], Content ([] @ line_ends s) k')"
    using scan_escaped by blast
  then show ?thesis
    using c by (simp add: decode_text_def xml_chars_EscapeString line_ends_EscapeString)
qed

lemma decode_text_illegal: "\<not> xml_chars s \<Longrightarrow> decode_text (EscapeString s) = None"
  by (simp add: decode_text_def xml_chars_EscapeString)

lemma hex_digit_in: "hex_digit n \<in> set ''0123456789abcdef''"
proof -
  have "n mod 16 < length ''0123456789abcdef''" by simp
  then show ?thesis unfolding hex_digit_def by (rule nth_mem)
qed

lemma Sprintf_x_hex: "list_all (\<lambda>c. c \<in> set ''0123456789abcdef'') (Sprintf_x b)"
proof (induction b)
  case Nil
  show ?case by (simp add: Sprintf_x_def)
next
  case (Cons c b)
  then show ?case
    using hex_digit_in [of "of_char c div 16"] hex_digit_in [of "of_char c"]
    by (simp add: Sprintf_x_def del: set_simps)
qed

lemma hex_attr_safe: "list_all (\<lambda>c. c \<in> set ''0123456789abcdef'') s \<Longrightarrow> attr_safe s"
  by (induction s) (auto simp: attr_safe_def)

lemma hex_xml_chars: "list_all (\<lambda>c. c \<in> set ''0123456789abcdef'') s \<Longrightarrow> foldl utf8_step U0 s = U0"
  by (induction s) auto

lemma id_xmpp_hex:
  assumes "id_xmpp w = (i, w1)"
  shows "attr_safe i \<and> xml_chars i"
proof -
  obtain b where "i = Sprintf_x b"
    using assms by (auto simp: id_xmpp_def split: prod.splits option.splits)
  then show ?thesis
    using Sprintf_x_hex [of b] hex_attr_safe hex_xml_chars by (auto simp: xml_chars_def)
qed

lemma fragment_MUCSend:
  "fragment (MUCSend_call mtype to from body) i =
     ''<message from='' @ [CHR 0x27] @ from @ [CHR 0x27] @ '' id='' @ [CHR 0x27] @ i @
     [CHR 0x27] @ '' to='' @ [CHR 0x27] @ to @ [CHR 0x27] @ '' type='' @ [CHR 0x27] @ mtype @
     [CHR 0x27] @ ''><body>'' @ EscapeString body @ ''</body></message>''"
  by (simp add: xmlMUCMessage_def)

lemma tokens_MUCSend:
  assumes "attr_quotable from" "attr_quotable to" "attr_quotable mtype" "attr_safe i"
    and "xml_chars from" "xml_chars to" "xml_chars mtype" "xml_chars i" "xml_chars body"
  shows "xml_tokens (fragment (MUCSend_call mtype to from body) i) =
    Some ([STag ''message''
             [(''from'', attr_norm (line_ends from)), (''id'', i),
              (''to'', attr_norm (line_ends to)), (''type'', attr_norm (line_ends mtype))],
           STag ''body'' []] @ flush (line_ends body) @ [ETag ''body'', ETag ''message''])"
proof -
  have u: "xml_chars (fragment (MUCSend_call mtype to from body) i)"
    using assms(5-9) unfolding fragment_MUCSend xml_chars_def
    by (simp add: cont_byte_def utf8_EscapeString)
  let ?ts = "[STag ''message''
             [(''from'', attr_norm (line_ends from)), (''id'', i),
              (''to'', attr_norm (line_ends to)), (''type'', attr_norm (line_ends mtype))],
           STag ''body'' []]"
  obtain k' where k': "foldl xml_step (?ts, Content [] 0) (EscapeString (line_ends body)) =
      (?ts, Content ([] @ line_ends body) k')"
    using scan_escaped by blast
  have l: "line_ends i = i"
    using assms(4) attr_safe_plain line_ends_plain by blast
  have q: "attr_quotable (line_ends from)" "attr_quotable (line_ends to)"
    "attr_quotable (line_ends mtype)"
    using assms(1-3) attr_quotable_line_ends by blast+
  have p: "foldl xml_step ([], Content [] 0)
      (line_ends (fragment (MUCSend_call mtype to from body) i)) =
    (?ts @ flush (line_ends body) @ [ETag ''body'', ETag ''message''], Content [] 0)"
    using q attr_safe_quotable [OF assms(4)] k' l unfolding fragment_MUCSend
    by (simp add: line_ends_Cons line_ends_append_Cons line_ends_EscapeString
        scan_attr_value char_class_defs flush_def)
  show ?thesis
    using u p by (simp add: xml_tokens_def flush_def)
qed

subsection \<open>Stream\<close>

lemma Stream_writes:
  "backed (outgoing c) \<Longrightarrow> wlimit (conns w (outgoing c)) = None \<Longrightarrow>
   Stream c jid host w =
     Returns () (appended w (outgoing c) (Sprintf xmlStream [jid, host, NsJabberClient, NsStream]))"
  by (simp add: Stream_def fmt_Fprintf_def conn_Write_unlimited report_def)

text \<open>
  Claim C7, as the code has it. \<^verbatim>\<open>Stream\<close> puts \<^verbatim>\<open>jid\<close> and \<^verbatim>\<open>host\<close> into the
  header as they are. Whenever both are strings of legal XML characters with no apostrophe,
  no \<^verbatim>\<open><\<close>, no \<^verbatim>\<open>&\<close>, no tab and no line break, the text it formats is one
  well-formed start tag \<^verbatim>\<open>stream:stream\<close> whose attributes are, in order, \<^verbatim>\<open>from\<close> (the
  jid), \<^verbatim>\<open>to\<close> (the host), \<^verbatim>\<open>version\<close> 1.0, \<^verbatim>\<open>xml:lang\<close> en, \<^verbatim>\<open>xmlns\<close>
  jabber:client and \<^verbatim>\<open>xmlns:stream\<close> http://etherx.jabber.org/streams; and on a
  transport that takes it, exactly this text is written.
\<close>

theorem Stream_header_well_formed:
  "attr_safe jid \<and> attr_safe host \<and> xml_chars jid \<and> xml_chars host \<longrightarrow>
     xml_tokens (Sprintf xmlStream [jid, host, NsJabberClient, NsStream]) =
       Some [STag ''stream:stream''
         [(''from'', jid), (''to'', host), (''version'', ''1.0''), (''xml:lang'', ''en''),
          (''xmlns'', ''jabber:client''),
          (''xmlns:stream'', ''http://etherx.jabber.org/streams'')]] \<and>
     wf_start_tag (Sprintf xmlStream [jid, host, NsJabberClient, NsStream]) \<and>
     (backed (outgoing c) \<and> wlimit (conns w (outgoing c)) = None \<longrightarrow>
        Stream c jid host w =
          Returns ()
            (appended w (outgoing c) (Sprintf xmlStream [jid, host, NsJabberClient, NsStream])))"
proof (intro impI)
  assume h: "attr_safe jid \<and> attr_safe host \<and> xml_chars jid \<and> xml_chars host"
  have t: "xml_tokens (Sprintf xmlStream [jid, host, NsJabberClient, NsStream]) =
       Some [STag ''stream:stream''
         [(''from'', jid), (''to'', host), (''version'', ''1.0''), (''xml:lang'', ''en''),
          (''xmlns'', ''jabber:client''),
          (''xmlns:stream'', ''http://etherx.jabber.org/streams'')]]"
    using h tokens_Stream [of jid host "[]"] by simp
  then have s: "wf_start_tag (Sprintf xmlStream [jid, host, NsJabberClient, NsStream])"
    by (simp add: wf_start_tag_def)
  show "xml_tokens (Sprintf xmlStream [jid, host, NsJabberClient, NsStream]) =
       Some [STag ''stream:stream''
         [(''from'', jid), (''to'', host), (''version'', ''1.0''), (''xml:lang'', ''en''),
          (''xmlns'', ''jabber:client''),
          (''xmlns:stream'', ''http://etherx.jabber.org/streams'')]] \<and>
     wf_start_tag (Sprintf xmlStream [jid, host, NsJabberClient, NsStream]) \<and>
     (backed (outgoing c) \<and> wlimit (conns w (outgoing c)) = None \<longrightarrow>
        Stream c jid host w =
          Returns ()
            (appended w (outgoing c) (Sprintf xmlStream [jid, host, NsJabberClient, NsStream])))"
    using t s Stream_writes by blast
qed

text \<open>An instance: the header for user@example.com at example.com.\<close>

theorem Stream_header_well_formed_witness:
  "Stream ex_conn ''user@example.com'' ''example.com'' ex_world =
     Returns ()
       (appended ex_world (TcpConn 0)
          ''<stream:stream from='user@example.com' to='example.com' version='1.0' xml:lang='en' xmlns='jabber:client' xmlns:stream='http://etherx.jabber.org/streams'>'') \<and>
   xml_tokens
     ''<stream:stream from='user@example.com' to='example.com' version='1.0' xml:lang='en' xmlns='jabber:client' xmlns:stream='http://etherx.jabber.org/streams'>'' =
     Some [STag ''stream:stream''
         [(''from'', ''user@example.com''), (''to'', ''example.com''), (''version'', ''1.0''),
          (''xml:lang'', ''en''), (''xmlns'', ''jabber:client''),
          (''xmlns:stream'', ''http://etherx.jabber.org/streams'')]]"
proof -
  have f: "Sprintf xmlStream [''user@example.com'', ''example.com'', NsJabberClient, NsStream] =
      ''<stream:stream from='user@example.com' to='example.com' version='1.0' xml:lang='en' xmlns='jabber:client' xmlns:stream='http://etherx.jabber.org/streams'>''"
    by (simp add: xmlStream_def NsJabberClient_def NsStream_def)
  have a: "attr_safe ''user@example.com'' \<and> attr_safe ''example.com'' \<and>
      xml_chars ''user@example.com'' \<and> xml_chars ''example.com''"
    by (simp add: attr_safe_def xml_chars_def)
  have b: "backed (outgoing ex_conn) \<and> wlimit (conns ex_world (outgoing ex_conn)) = None"
    by (simp add: ex_conn_def ex_world_def)
  show ?thesis
    using Stream_header_well_formed [of "''user@example.com''" "''example.com''" ex_conn ex_world]
      a b unfolding f
    by (simp add: ex_conn_def)
qed

text \<open>
  With the jid \<^verbatim>\<open>a'b\<close> the header that \<^verbatim>\<open>Stream\<close> writes is not well-formed: the
  apostrophe ends the value of \<^verbatim>\<open>from\<close>. With a tab in the jid the header is well-formed,
  but its \<^verbatim>\<open>from\<close> attribute reads with a space for the tab.
\<close>

theorem Stream_header_counterexample:
  "xml_tokens (Sprintf xmlStream [''a'b'', ''example.com'', NsJabberClient, NsStream]) = None \<and>
   Stream ex_conn ''a'b'' ''example.com'' ex_world =
     Returns ()
       (appended ex_world (TcpConn 0)
          (Sprintf xmlStream [''a'b'', ''example.com'', NsJabberClient, NsStream])) \<and>
   xml_tokens
     (Sprintf xmlStream [[CHR ''a'', CHR 0x09, CHR ''b''], ''example.com'', NsJabberClient, NsStream]) =
     Some [STag ''stream:stream''
         [(''from'', ''a b''), (''to'', ''example.com''), (''version'', ''1.0''),
          (''xml:lang'', ''en''), (''xmlns'', ''jabber:client''),
          (''xmlns:stream'', ''http://etherx.jabber.org/streams'')]]"
proof -
  have a: "xml_tokens (Sprintf xmlStream [''a'b'', ''example.com'', NsJabberClient, NsStream]) = None"
    by code_simp
  have b: "Stream ex_conn ''a'b'' ''example.com'' ex_world =
     Returns ()
       (appended ex_world (TcpConn 0)
          (Sprintf xmlStream [''a'b'', ''example.com'', NsJabberClient, NsStream]))"
    by (simp add: Stream_def fmt_Fprintf_def conn_Write_def report_def appended_def ex_conn_def
        ex_world_def Let_def)
  have c: "xml_tokens
     (Sprintf xmlStream [[CHR ''a'', CHR 0x09, CHR ''b''], ''example.com'', NsJabberClient, NsStream]) =
     Some [STag ''stream:stream''
         [(''from'', ''a b''), (''to'', ''example.com''), (''version'', ''1.0''),
          (''xml:lang'', ''en''), (''xmlns'', ''jabber:client''),
          (''xmlns:stream'', ''http://etherx.jabber.org/streams'')]]"
    by code_simp
  show ?thesis using a b c by simp
qed



subsection \<open>MUCSend\<close>

lemma MUCSend_writes:
  "backed (outgoing c) \<Longrightarrow> wlimit (conns w (outgoing c)) = None \<Longrightarrow> id_xmpp w = (i, w1) \<Longrightarrow>
   MUCSend c mtype to from body w =
     Returns ()
       (appended w1 (outgoing c) (Sprintf xmlMUCMessage [from, i, to, mtype, EscapeString body]))"
  using id_xmpp_keeps [of w i w1]
  by (simp add: MUCSend_def fmt_Fprintf_def conn_Write_unlimited report_def)

lemma closes_body:
  "closes [''message''] ([STag ''body'' []] @ flush body @ [ETag ''body'', ETag ''message''])"
  by (simp add: flush_def)

text \<open>
  Claim C1, as the code has it. \<^verbatim>\<open>MUCSend\<close> puts the escaped body between the
  \<^verbatim>\<open>body\<close> tags and the other three arguments into attributes as they are. For every
  body of legal XML characters, XML decoding of the escaped body gives the body with its
  line ends normalised; so it gives the body back whenever the body has no carriage
  return. Whenever \<^verbatim>\<open>from\<close>, \<^verbatim>\<open>to\<close> and \<^verbatim>\<open>mtype\<close> have no apostrophe, \<^verbatim>\<open><\<close> or
  \<^verbatim>\<open>&\<close>, and all four arguments are strings of legal XML characters, the stanza is a
  well-formed element: a \<^verbatim>\<open>message\<close> with the attributes \<^verbatim>\<open>from\<close>, \<^verbatim>\<open>id\<close>, \<^verbatim>\<open>to\<close>
  and \<^verbatim>\<open>type\<close>, holding one \<^verbatim>\<open>body\<close> whose character data is the body with its line
  ends normalised; and on a transport that takes it, exactly this stanza is written.
\<close>

theorem MUCSend_body_escaped:
  "(xml_chars body \<longrightarrow> decode_text (EscapeString body) = Some (line_ends body)) \<and>
   (xml_chars body \<and> CHR 0x0D \<notin> set body \<longrightarrow>
      decode_text (EscapeString body) = Some body) \<and>
   (id_xmpp w = (i, w1) \<and> attr_quotable from \<and> attr_quotable to \<and> attr_quotable mtype \<and>
    xml_chars from \<and> xml_chars to \<and> xml_chars mtype \<and> xml_chars body \<longrightarrow>
      xml_tokens (Sprintf xmlMUCMessage [from, i, to, mtype, EscapeString body]) =
        Some ([STag ''message''
                 [(''from'', attr_norm (line_ends from)), (''id'', i),
                  (''to'', attr_norm (line_ends to)), (''type'', attr_norm (line_ends mtype))],
               STag ''body'' []] @ flush (line_ends body) @
              [ETag ''body'', ETag ''message'']) \<and>
      wf_element (Sprintf xmlMUCMessage [from, i, to, mtype, EscapeString body]) \<and>
      (backed (outgoing c) \<and> wlimit (conns w (outgoing c)) = None \<longrightarrow>
         MUCSend c mtype to from body w =
           Returns ()
             (appended w1 (outgoing c)
                (Sprintf xmlMUCMessage [from, i, to, mtype, EscapeString body]))))"
proof (intro conjI impI)
  assume "xml_chars body"
  then show "decode_text (EscapeString body) = Some (line_ends body)"
    by (rule decode_text_EscapeString)
next
  assume "xml_chars body \<and> CHR 0x0D \<notin> set body"
  then show "decode_text (EscapeString body) = Some body"
    using decode_text_EscapeString [of body] line_ends_plain [of body] by simp
next
  assume h: "id_xmpp w = (i, w1) \<and> attr_quotable from \<and> attr_quotable to \<and>
    attr_quotable mtype \<and>
    xml_chars from \<and> xml_chars to \<and> xml_chars mtype \<and> xml_chars body"
  then have i: "attr_safe i" "xml_chars i"
    using id_xmpp_hex by blast+
  show t: "xml_tokens (Sprintf xmlMUCMessage [from, i, to, mtype, EscapeString body]) =
        Some ([STag ''message''
                 [(''from'', attr_norm (line_ends from)), (''id'', i),
                  (''to'', attr_norm (line_ends to)), (''type'', attr_norm (line_ends mtype))],
               STag ''body'' []] @ flush (line_ends body) @
              [ETag ''body'', ETag ''message''])"
    using h i tokens_MUCSend [of "from" "to" mtype i body] by simp
  show "wf_element (Sprintf xmlMUCMessage [from, i, to, mtype, EscapeString body])"
    using t closes_body [of "line_ends body"] by (simp add: wf_element_def)
  assume "backed (outgoing c) \<and> wlimit (conns w (outgoing c)) = None"
  then show "MUCSend c mtype to from body w =
           Returns ()
             (appended w1 (outgoing c)
                (Sprintf xmlMUCMessage [from, i, to, mtype, EscapeString body]))"
    using h MUCSend_writes by blast
qed

lemma ex_world_id:
  "id_xmpp ex_world = (''0000000000000000'', ex_world\<lparr>stdout := ''error generating id: EOF''\<rparr>)"
  by (simp add: id_xmpp_def io_ReadFull_rand_def ex_world_def Sprintf_x_def hex_digit_def
      replicate_8)

text \<open>
  An instance: a body with all five escaped characters and a line feed, sent from a
  sender whose name has a carriage return and a line feed in it.
\<close>

theorem MUCSend_body_escaped_witness:
  "decode_text (EscapeString (''1 < 2 & \"a\" > 'b' '' @ [CHR 0x0A] @ ''ok'')) =
     Some (''1 < 2 & \"a\" > 'b' '' @ [CHR 0x0A] @ ''ok'') \<and>
   MUCSend ex_conn ''groupchat'' ''room@conf.example.com''
     (''user'' @ [CHR 0x0D, CHR 0x0A] @ ''@example.com'')
     (''1 < 2 & \"a\" > 'b' '' @ [CHR 0x0A] @ ''ok'') ex_world =
     Returns ()
       (appended (ex_world\<lparr>stdout := ''error generating id: EOF''\<rparr>) (TcpConn 0)
          (''<message from='user'' @ [CHR 0x0D, CHR 0x0A] @
           ''@example.com' id='0000000000000000' to='room@conf.example.com' type='groupchat'><body>1 &lt; 2 &amp; &#34;a&#34; &gt; &#39;b&#39; '' @
           [CHR 0x0A] @ ''ok</body></message>'')) \<and>
   xml_tokens
     (''<message from='user'' @ [CHR 0x0D, CHR 0x0A] @
      ''@example.com' id='0000000000000000' to='room@conf.example.com' type='groupchat'><body>1 &lt; 2 &amp; &#34;a&#34; &gt; &#39;b&#39; '' @
      [CHR 0x0A] @ ''ok</body></message>'') =
     Some [STag ''message''
             [(''from'', ''user @example.com''), (''id'', ''0000000000000000''),
              (''to'', ''room@conf.example.com''), (''type'', ''groupchat'')],
           STag ''body'' [],
           CharData (''1 < 2 & \"a\" > 'b' '' @ [CHR 0x0A] @ ''ok''),
           ETag ''body'', ETag ''message'']"
proof -
  let ?body = "''1 < 2 & \"a\" > 'b' '' @ [CHR 0x0A] @ ''ok''"
  let ?from = "''user'' @ [CHR 0x0D, CHR 0x0A] @ ''@example.com''"
  note T = MUCSend_body_escaped
    [of ?body ex_world "''0000000000000000''"
      "ex_world\<lparr>stdout := ''error generating id: EOF''\<rparr>"
      ?from "''room@conf.example.com''" "''groupchat''" ex_conn]
  have f: "Sprintf xmlMUCMessage [?from, ''0000000000000000'',
      ''room@conf.example.com'', ''groupchat'', EscapeString ?body] =
      ''<message from='user'' @ [CHR 0x0D, CHR 0x0A] @
      ''@example.com' id='0000000000000000' to='room@conf.example.com' type='groupchat'><body>1 &lt; 2 &amp; &#34;a&#34; &gt; &#39;b&#39; '' @
      [CHR 0x0A] @ ''ok</body></message>''"
    by (simp add: xmlMUCMessage_def)
  have x: "xml_chars ?body \<and> CHR 0x0D \<notin> set ?body"
    by (simp add: xml_chars_def)
  have a: "id_xmpp ex_world =
      (''0000000000000000'', ex_world\<lparr>stdout := ''error generating id: EOF''\<rparr>) \<and>
      attr_quotable ?from \<and> attr_quotable ''room@conf.example.com'' \<and>
      attr_quotable ''groupchat'' \<and> xml_chars ?from \<and>
      xml_chars ''room@conf.example.com'' \<and> xml_chars ''groupchat'' \<and> xml_chars ?body"
    using ex_world_id by (simp add: attr_quotable_def xml_chars_def)
  have n: "attr_norm (line_ends ?from) = ''user @example.com''"
    "attr_norm (line_ends ''room@conf.example.com'') = ''room@conf.example.com''"
    "attr_norm (line_ends ''groupchat'') = ''groupchat''"
    "flush (line_ends ?body) = [CharData ?body]"
    by (simp_all add: attr_norm_def is_space_def flush_def)
  have b: "backed (outgoing ex_conn) \<and> wlimit (conns ex_world (outgoing ex_conn)) = None"
    by (simp add: ex_conn_def ex_world_def)
  have o: "outgoing ex_conn = TcpConn 0"
    by (simp add: ex_conn_def)
  have d: "decode_text (EscapeString ?body) = Some ?body"
    using T [THEN conjunct2, THEN conjunct1] x by (rule mp)
  note R = T [THEN conjunct2, THEN conjunct2, THEN mp, OF a]
  have t: "xml_tokens
     (''<message from='user'' @ [CHR 0x0D, CHR 0x0A] @
      ''@example.com' id='0000000000000000' to='room@conf.example.com' type='groupchat'><body>1 &lt; 2 &amp; &#34;a&#34; &gt; &#39;b&#39; '' @
      [CHR 0x0A] @ ''ok</body></message>'') =
     Some ([STag ''message''
             [(''from'', ''user @example.com''), (''id'', ''0000000000000000''),
              (''to'', ''room@conf.example.com''), (''type'', ''groupchat'')],
           STag ''body'' []] @ [CharData ?body] @ [ETag ''body'', ETag ''message''])"
    using R [THEN conjunct1] unfolding f n .
  have m: "MUCSend ex_conn ''groupchat'' ''room@conf.example.com'' ?from ?body ex_world =
     Returns ()
       (appended (ex_world\<lparr>stdout := ''error generating id: EOF''\<rparr>) (TcpConn 0)
          (''<message from='user'' @ [CHR 0x0D, CHR 0x0A] @
           ''@example.com' id='0000000000000000' to='room@conf.example.com' type='groupchat'><body>1 &lt; 2 &amp; &#34;a&#34; &gt; &#39;b&#39; '' @
           [CHR 0x0A] @ ''ok</body></message>''))"
    using R [THEN conjunct2, THEN conjunct2, THEN mp, OF b] unfolding f o .
  show ?thesis
    using d m t by simp
qed

text \<open>
  Stanzas that \<^verbatim>\<open>MUCSend\<close> writes: one with an apostrophe in \<^verbatim>\<open>from\<close> and one with
  the control character 0x01 as body, which are not well-formed; and one with a carriage
  return in the body, which is well-formed but whose body reads with a line feed in its
  place, as the escaped body alone does. The escaped control character does not decode.
\<close>

theorem MUCSend_stanza_counterexample:
  "MUCSend ex_conn ''chat'' ''room'' ''a'b'' ''hello'' ex_world =
     Returns ()
       (appended (ex_world\<lparr>stdout := ''error generating id: EOF''\<rparr>) (TcpConn 0)
          ''<message from='a'b' id='0000000000000000' to='room' type='chat'><body>hello</body></message>'') \<and>
   \<not> wf_element
     ''<message from='a'b' id='0000000000000000' to='room' type='chat'><body>hello</body></message>'' \<and>
   MUCSend ex_conn ''chat'' ''room'' ''me'' [CHR 0x01] ex_world =
     Returns ()
       (appended (ex_world\<lparr>stdout := ''error generating id: EOF''\<rparr>) (TcpConn 0)
          (''<message from='me' id='0000000000000000' to='room' type='chat'><body>'' @
           [CHR 0x01] @ ''</body></message>'')) \<and>
   \<not> wf_element
     (''<message from='me' id='0000000000000000' to='room' type='chat'><body>'' @
      [CHR 0x01] @ ''</body></message>'') \<and>
   decode_text (EscapeString [CHR 0x01]) = None \<and>
   MUCSend ex_conn ''chat'' ''room'' ''me'' [CHR ''a'', CHR 0x0D, CHR ''b''] ex_world =
     Returns ()
       (appended (ex_world\<lparr>stdout := ''error generating id: EOF''\<rparr>) (TcpConn 0)
          (''<message from='me' id='0000000000000000' to='room' type='chat'><body>'' @
           [CHR ''a'', CHR 0x0D, CHR ''b''] @ ''</body></message>'')) \<and>
   xml_tokens
     (''<message from='me' id='0000000000000000' to='room' type='chat'><body>'' @
      [CHR ''a'', CHR 0x0D, CHR ''b''] @ ''</body></message>'') =
     Some [STag ''message''
             [(''from'', ''me''), (''id'', ''0000000000000000''), (''to'', ''room''),
              (''type'', ''chat'')],
           STag ''body'' [], CharData [CHR ''a'', CHR 0x0A, CHR ''b''],
           ETag ''body'', ETag ''message''] \<and>
   decode_text (EscapeString [CHR ''a'', CHR 0x0D, CHR ''b'']) =
     Some [CHR ''a'', CHR 0x0A, CHR ''b'']"
proof -
  have b: "backed (outgoing ex_conn)" "wlimit (conns ex_world (outgoing ex_conn)) = None"
    by (simp_all add: ex_conn_def ex_world_def)
  have a: "MUCSend ex_conn ''chat'' ''room'' ''a'b'' ''hello'' ex_world =
     Returns ()
       (appended (ex_world\<lparr>stdout := ''error generating id: EOF''\<rparr>) (TcpConn 0)
          ''<message from='a'b' id='0000000000000000' to='room' type='chat'><body>hello</body></message>'')"
    using MUCSend_writes [OF b ex_world_id, of "''chat''" "''room''" "''a'b''" "''hello''"]
    by (simp add: xmlMUCMessage_def ex_conn_def)
  have c: "MUCSend ex_conn ''chat'' ''room'' ''me'' [CHR 0x01] ex_world =
     Returns ()
       (appended (ex_world\<lparr>stdout := ''error generating id: EOF''\<rparr>) (TcpConn 0)
          (''<message from='me' id='0000000000000000' to='room' type='chat'><body>'' @
           [CHR 0x01] @ ''</body></message>''))"
    using MUCSend_writes [OF b ex_world_id, of "''chat''" "''room''" "''me''" "[CHR 0x01]"]
    by (simp add: xmlMUCMessage_def ex_conn_def)
  have d: "\<not> wf_element
     ''<message from='a'b' id='0000000000000000' to='room' type='chat'><body>hello</body></message>''"
    by code_simp
  have e: "\<not> wf_element
     (''<message from='me' id='0000000000000000' to='room' type='chat'><body>'' @
      [CHR 0x01] @ ''</body></message>'')"
    by code_simp
  have f: "decode_text (EscapeString [CHR 0x01]) = None"
    by code_simp
  have g: "MUCSend ex_conn ''chat'' ''room'' ''me'' [CHR ''a'', CHR 0x0D, CHR ''b''] ex_world =
     Returns ()
       (appended (ex_world\<lparr>stdout := ''error generating id: EOF''\<rparr>) (TcpConn 0)
          (''<message from='me' id='0000000000000000' to='room' type='chat'><body>'' @
           [CHR ''a'', CHR 0x0D, CHR ''b''] @ ''</body></message>''))"
    using MUCSend_writes [OF b ex_world_id, of "''chat''" "''room''" "''me''"
        "[CHR ''a'', CHR 0x0D, CHR ''b'']"]
    by (simp add: xmlMUCMessage_def ex_conn_def)
  have h: "xml_tokens
     (''<message from='me' id='0000000000000000' to='room' type='chat'><body>'' @
      [CHR ''a'', CHR 0x0D, CHR ''b''] @ ''</body></message>'') =
     Some [STag ''message''
             [(''from'', ''me''), (''id'', ''0000000000000000''), (''to'', ''room''),
              (''type'', ''chat'')],
           STag ''body'' [], CharData [CHR ''a'', CHR 0x0A, CHR ''b''],
           ETag ''body'', ETag ''message'']"
    by code_simp
  have k: "decode_text (EscapeString [CHR ''a'', CHR 0x0D, CHR ''b'']) =
     Some [CHR ''a'', CHR 0x0A, CHR ''b'']"
    by code_simp
  show ?thesis using a c d e f g h k by simp
qed


subsection \<open>What is interpolated as it is\<close>

lemma fragment_texts:
  "fragment (Stream_call jid host) i =
     ''<stream:stream from='' @ [CHR 0x27] @ jid @ [CHR 0x27] @ '' to='' @ [CHR 0x27] @ host @
     [CHR 0x27] @
     '' version='1.0' xml:lang='en' xmlns='jabber:client' xmlns:stream='http://etherx.jabber.org/streams'>''"
  "fragment StartTLS_call i = ''<starttls xmlns='urn:ietf:params:xml:ns:xmpp-tls'/>''"
  "fragment (Auth_call user pass resource) i =
     ''<iq type='set' id='' @ [CHR 0x27] @ i @ [CHR 0x27] @
     ''><query xmlns='jabber:iq:auth'><username>'' @ user @ ''</username><password>'' @ pass @
     ''</password><resource>'' @ resource @ ''</resource></query></iq>''"
  "fragment (Discover_call from to) i =
     ''<iq from='' @ [CHR 0x27] @ from @ [CHR 0x27] @ '' to='' @ [CHR 0x27] @ to @ [CHR 0x27] @
     '' id='' @ [CHR 0x27] @ i @ [CHR 0x27] @
     '' type='get'><query xmlns='http://jabber.org/protocol/disco#items'/></iq>''"
  "fragment (Presence_call jid pres) i =
     ''<presence from='' @ [CHR 0x27] @ jid @ [CHR 0x27] @ ''><show>'' @ pres @
     ''</show></presence>''"
  "fragment (MUCPart_call roomId) i =
     ''<presence to='' @ [CHR 0x27] @ roomId @ [CHR 0x27] @ '' type='unavailable'></presence>''"
  "fragment (MUCPresence_call roomId jid) i =
     ''<presence id='' @ [CHR 0x27] @ i @ [CHR 0x27] @ '' to='' @ [CHR 0x27] @ roomId @
     [CHR 0x27] @ '' from='' @ [CHR 0x27] @ jid @ [CHR 0x27] @
     ''><x xmlns='http://jabber.org/protocol/muc'/></presence>''"
  "fragment (MUCSend_call mtype to from body) i =
     ''<message from='' @ [CHR 0x27] @ from @ [CHR 0x27] @ '' id='' @ [CHR 0x27] @ i @
     [CHR 0x27] @ '' to='' @ [CHR 0x27] @ to @ [CHR 0x27] @ '' type='' @ [CHR 0x27] @ mtype @
     [CHR 0x27] @ ''><body>'' @ EscapeString body @ ''</body></message>''"
  "fragment (Roster_call from to) i =
     ''<iq from='' @ [CHR 0x27] @ from @ [CHR 0x27] @ '' to='' @ [CHR 0x27] @ to @ [CHR 0x27] @
     '' id='' @ [CHR 0x27] @ i @ [CHR 0x27] @
     '' type='get'><query xmlns='jabber:iq:roster'/></iq>''"
  by (simp_all add: xmlStream_def xmlStartTLS_def xmlIqSet_def xmlIqGet_def xmlPresence_def
      xmlMUCPart_def xmlMUCPresence_def xmlMUCMessage_def NsJabberClient_def NsStream_def
      NsIqAuth_def NsIqRoster_def NsTLS_def NsDisco_def NsMuc_def)

lemma broken_Stream:
  "\<not> wf_start_tag (fragment (Stream_call ''a'b'' ''example.com'') [])"
  "\<not> wf_start_tag (fragment (Stream_call ''user@example.com'' ''a'b'') [])"
  by code_simp+

lemma broken_Auth:
  "\<not> wf_element (fragment (Auth_call ''<'' ''secret'' ''home'') ''0000000000000000'')"
  "\<not> wf_element (fragment (Auth_call ''user'' ''<'' ''home'') ''0000000000000000'')"
  "\<not> wf_element (fragment (Auth_call ''user'' ''secret'' ''<'') ''0000000000000000'')"
  by code_simp+

lemma broken_Discover:
  "\<not> wf_element (fragment (Discover_call ''a'b'' ''example.com'') ''0000000000000000'')"
  "\<not> wf_element (fragment (Discover_call ''user@example.com'' ''a'b'') ''0000000000000000'')"
  by code_simp+

lemma broken_Presence:
  "\<not> wf_element (fragment (Presence_call ''a'b'' ''chat'') [])"
  "\<not> wf_element (fragment (Presence_call ''user@example.com'' ''<'') [])"
  by code_simp+

lemma broken_MUCPart:
  "\<not> wf_element (fragment (MUCPart_call ''a'b'') [])"
  by code_simp

lemma broken_MUCPresence:
  "\<not> wf_element (fragment (MUCPresence_call ''a'b'' ''user@example.com'') ''0000000000000000'')"
  "\<not> wf_element (fragment (MUCPresence_call ''room'' ''a'b'') ''0000000000000000'')"
  by code_simp+

lemma broken_MUCSend:
  "\<not> wf_element (fragment (MUCSend_call ''a'b'' ''room'' ''me'' ''hello'') ''0000000000000000'')"
  "\<not> wf_element (fragment (MUCSend_call ''chat'' ''a'b'' ''me'' ''hello'') ''0000000000000000'')"
  "\<not> wf_element (fragment (MUCSend_call ''chat'' ''room'' ''a'b'' ''hello'') ''0000000000000000'')"
  by code_simp+

lemma broken_Roster:
  "\<not> wf_element (fragment (Roster_call ''a'b'' ''example.com'') ''0000000000000000'')"
  "\<not> wf_element (fragment (Roster_call ''user@example.com'' ''a'b'') ''0000000000000000'')"
  by code_simp+

lemma sound_examples:
  "wf_start_tag (fragment (Stream_call ''user@example.com'' ''example.com'') [])"
  "wf_element (fragment StartTLS_call [])"
  "wf_element (fragment (Auth_call ''user'' ''secret'' ''home'') ''0000000000000000'')"
  "wf_element (fragment (Discover_call ''user@example.com'' ''example.com'') ''0000000000000000'')"
  "wf_element (fragment (Presence_call ''user@example.com'' ''chat'') [])"
  "wf_element (fragment (MUCPart_call ''room'') [])"
  "wf_element (fragment (MUCPresence_call ''room'' ''user@example.com'') ''0000000000000000'')"
  "wf_element (fragment (MUCSend_call ''chat'' ''room'' ''me'' ''<hello>'') ''0000000000000000'')"
  "wf_element (fragment (Roster_call ''user@example.com'' ''example.com'') ''0000000000000000'')"
  by code_simp+


lemma EscapeString_each:
  "EscapeString body =
     concat (map (\<lambda>c. if c = CHR ''&'' then ''&amp;''
                       else if c = CHR 0x27 then ''&#39;''
                       else if c = CHR ''<'' then ''&lt;''
                       else if c = CHR ''>'' then ''&gt;''
                       else if c = CHR 0x22 then ''&#34;''
                       else [c]) body)"
  by (induction body) simp_all

lemma EscapeString_clean:
  "list_all (\<lambda>c. c \<notin> set [CHR ''<'', CHR ''>'', CHR 0x27, CHR 0x22]) (EscapeString body)"
  by (induction body) simp_all

lemma escaped_example:
  "fragment (MUCSend_call ''chat'' ''room'' ''me'' ''<b> & 'c' \"d\"'') ''0000000000000000'' =
     ''<message from='me' id='0000000000000000' to='room' type='chat'><body>&lt;b&gt; &amp; &#39;c&#39; &#34;d&#34;</body></message>''"
  "fragment (Presence_call ''me'' ''<b> & 'c' \"d\"'') [] =
     ''<presence from='me'><show><b> & 'c' \"d\"</show></presence>''"
  by (simp_all add: xmlMUCMessage_def xmlPresence_def)

lemma escaped_example_sound:
  "wf_element (fragment (MUCSend_call ''chat'' ''room'' ''me'' ''<b> & 'c' \"d\"'') ''0000000000000000'')"
  "\<not> wf_element (fragment (Presence_call ''me'' ''<b> & 'c' \"d\"'') [])"
  by code_simp+

text \<open>
  Claim C10. The text each writer formats, with its arguments as they are: only the body
  of \<^verbatim>\<open>MUCSend\<close> goes through \<^verbatim>\<open>EscapeString\<close>. On a transport that takes it, a writer
  writes exactly this text. For every argument that is put in as it is there is a value,
  an apostrophe inside an attribute or a \<^verbatim>\<open><\<close> inside an element, with which the text
  is not well-formed. The escaped body is the body with each \<^verbatim>\<open>&\<close>, apostrophe,
  \<^verbatim>\<open><\<close>, \<^verbatim>\<open>>\<close> and double quote replaced by \<^verbatim>\<open>&amp;\<close>, \<^verbatim>\<open>&#39;\<close>, \<^verbatim>\<open>&lt;\<close>,
  \<^verbatim>\<open>&gt;\<close> and \<^verbatim>\<open>&#34;\<close>, so that none of the last four is left in it: the same string
  with all five in it is written escaped, in a well-formed stanza, as the body of
  \<^verbatim>\<open>MUCSend\<close>, and as it is, in a stanza that is not well-formed, as the state of
  \<^verbatim>\<open>Presence\<close>.
\<close>

theorem arguments_interpolated_verbatim:
  "fragment (Stream_call jid host) i =
     ''<stream:stream from='' @ [CHR 0x27] @ jid @ [CHR 0x27] @ '' to='' @ [CHR 0x27] @ host @
     [CHR 0x27] @
     '' version='1.0' xml:lang='en' xmlns='jabber:client' xmlns:stream='http://etherx.jabber.org/streams'>'' \<and>
   fragment StartTLS_call i = ''<starttls xmlns='urn:ietf:params:xml:ns:xmpp-tls'/>'' \<and>
   fragment (Auth_call user pass resource) i =
     ''<iq type='set' id='' @ [CHR 0x27] @ i @ [CHR 0x27] @
     ''><query xmlns='jabber:iq:auth'><username>'' @ user @ ''</username><password>'' @ pass @
     ''</password><resource>'' @ resource @ ''</resource></query></iq>'' \<and>
   fragment (Discover_call from to) i =
     ''<iq from='' @ [CHR 0x27] @ from @ [CHR 0x27] @ '' to='' @ [CHR 0x27] @ to @ [CHR 0x27] @
     '' id='' @ [CHR 0x27] @ i @ [CHR 0x27] @
     '' type='get'><query xmlns='http://jabber.org/protocol/disco#items'/></iq>'' \<and>
   fragment (Presence_call jid pres) i =
     ''<presence from='' @ [CHR 0x27] @ jid @ [CHR 0x27] @ ''><show>'' @ pres @
     ''</show></presence>'' \<and>
   fragment (MUCPart_call roomId) i =
     ''<presence to='' @ [CHR 0x27] @ roomId @ [CHR 0x27] @ '' type='unavailable'></presence>'' \<and>
   fragment (MUCPresence_call roomId jid) i =
     ''<presence id='' @ [CHR 0x27] @ i @ [CHR 0x27] @ '' to='' @ [CHR 0x27] @ roomId @
     [CHR 0x27] @ '' from='' @ [CHR 0x27] @ jid @ [CHR 0x27] @
     ''><x xmlns='http://jabber.org/protocol/muc'/></presence>'' \<and>
   fragment (MUCSend_call mtype to from body) i =
     ''<message from='' @ [CHR 0x27] @ from @ [CHR 0x27] @ '' id='' @ [CHR 0x27] @ i @
     [CHR 0x27] @ '' to='' @ [CHR 0x27] @ to @ [CHR 0x27] @ '' type='' @ [CHR 0x27] @ mtype @
     [CHR 0x27] @ ''><body>'' @ EscapeString body @ ''</body></message>'' \<and>
   fragment (Roster_call from to) i =
     ''<iq from='' @ [CHR 0x27] @ from @ [CHR 0x27] @ '' to='' @ [CHR 0x27] @ to @ [CHR 0x27] @
     '' id='' @ [CHR 0x27] @ i @ [CHR 0x27] @
     '' type='get'><query xmlns='jabber:iq:roster'/></iq>'' \<and>
   (backed (outgoing c) \<and> wlimit (conns w (outgoing c)) = None \<and> draws_id call w = (i, w1)
      \<longrightarrow> run_writer c call w = Returns () (appended w1 (outgoing c) (fragment call i))) \<and>
   \<not> wf_start_tag (fragment (Stream_call ''a'b'' ''example.com'') []) \<and>
   \<not> wf_start_tag (fragment (Stream_call ''user@example.com'' ''a'b'') []) \<and>
   \<not> wf_element (fragment (Auth_call ''<'' ''secret'' ''home'') ''0000000000000000'') \<and>
   \<not> wf_element (fragment (Auth_call ''user'' ''<'' ''home'') ''0000000000000000'') \<and>
   \<not> wf_element (fragment (Auth_call ''user'' ''secret'' ''<'') ''0000000000000000'') \<and>
   \<not> wf_element (fragment (Discover_call ''a'b'' ''example.com'') ''0000000000000000'') \<and>
   \<not> wf_element (fragment (Discover_call ''user@example.com'' ''a'b'') ''0000000000000000'') \<and>
   \<not> wf_element (fragment (Presence_call ''a'b'' ''chat'') []) \<and>
   \<not> wf_element (fragment (Presence_call ''user@example.com'' ''<'') []) \<and>
   \<not> wf_element (fragment (MUCPart_call ''a'b'') []) \<and>
   \<not> wf_element (fragment (MUCPresence_call ''a'b'' ''user@example.com'') ''0000000000000000'') \<and>
   \<not> wf_element (fragment (MUCPresence_call ''room'' ''a'b'') ''0000000000000000'') \<and>
   \<not> wf_element (fragment (MUCSend_call ''a'b'' ''room'' ''me'' ''hello'') ''0000000000000000'') \<and>
   \<not> wf_element (fragment (MUCSend_call ''chat'' ''a'b'' ''me'' ''hello'') ''0000000000000000'') \<and>
   \<not> wf_element (fragment (MUCSend_call ''chat'' ''room'' ''a'b'' ''hello'') ''0000000000000000'') \<and>
   \<not> wf_element (fragment (Roster_call ''a'b'' ''example.com'') ''0000000000000000'') \<and>
   \<not> wf_element (fragment (Roster_call ''user@example.com'' ''a'b'') ''0000000000000000'') \<and>
   EscapeString body =
     concat (map (\<lambda>c. if c = CHR ''&'' then ''&amp;''
                       else if c = CHR 0x27 then ''&#39;''
                       else if c = CHR ''<'' then ''&lt;''
                       else if c = CHR ''>'' then ''&gt;''
                       else if c = CHR 0x22 then ''&#34;''
                       else [c]) body) \<and>
   list_all (\<lambda>c. c \<notin> set [CHR ''<'', CHR ''>'', CHR 0x27, CHR 0x22]) (EscapeString body) \<and>
   fragment (MUCSend_call ''chat'' ''room'' ''me'' ''<b> & 'c' \"d\"'') ''0000000000000000'' =
     ''<message from='me' id='0000000000000000' to='room' type='chat'><body>&lt;b&gt; &amp; &#39;c&#39; &#34;d&#34;</body></message>'' \<and>
   fragment (Presence_call ''me'' ''<b> & 'c' \"d\"'') [] =
     ''<presence from='me'><show><b> & 'c' \"d\"</show></presence>'' \<and>
   wf_element
     (fragment (MUCSend_call ''chat'' ''room'' ''me'' ''<b> & 'c' \"d\"'') ''0000000000000000'') \<and>
   \<not> wf_element (fragment (Presence_call ''me'' ''<b> & 'c' \"d\"'') [])"
  by (intro conjI impI;
      (rule fragment_texts broken_Stream broken_Auth broken_Discover broken_Presence
          broken_MUCPart broken_MUCPresence broken_MUCSend broken_Roster
          EscapeString_each EscapeString_clean escaped_example escaped_example_sound
        | (elim conjE, rule run_writer_writes; assumption)))

text \<open>
  Instances: a presence with \<^verbatim>\<open><\<close> as its state is written as it is, and what is
  written is not well-formed; a message whose body has all five special characters is
  written with each of them replaced by its reference.
\<close>

theorem arguments_interpolated_verbatim_witness:
  "run_writer ex_conn (Presence_call ''user@example.com'' ''<'') ex_world =
     Returns ()
       (appended ex_world (TcpConn 0) ''<presence from='user@example.com'><show><</show></presence>'') \<and>
   \<not> wf_element ''<presence from='user@example.com'><show><</show></presence>'' \<and>
   run_writer ex_conn (MUCSend_call ''chat'' ''room'' ''me'' ''<b> & 'c' \"d\"'') ex_world =
     Returns ()
       (appended (ex_world\<lparr>stdout := ''error generating id: EOF''\<rparr>) (TcpConn 0)
          ''<message from='me' id='0000000000000000' to='room' type='chat'><body>&lt;b&gt; &amp; &#39;c&#39; &#34;d&#34;</body></message>'')"
proof -
  note T = arguments_interpolated_verbatim
    [where jid = "''user@example.com''" and pres = "''<''" and i = "[]" and c = ex_conn
      and w = ex_world and call = "Presence_call ''user@example.com'' ''<''"
      and ?w1.0 = ex_world]
  note U = arguments_interpolated_verbatim
    [where i = "''0000000000000000''" and c = ex_conn and w = ex_world
      and call = "MUCSend_call ''chat'' ''room'' ''me'' ''<b> & 'c' \"d\"''"
      and ?w1.0 = "ex_world\<lparr>stdout := ''error generating id: EOF''\<rparr>"]
  have f: "fragment (Presence_call ''user@example.com'' ''<'') [] =
      ''<presence from='user@example.com'><show><</show></presence>''"
    using T [THEN conjunct2, THEN conjunct2, THEN conjunct2, THEN conjunct2, THEN conjunct1] by simp
  have b: "backed (outgoing ex_conn) \<and> wlimit (conns ex_world (outgoing ex_conn)) = None \<and>
      draws_id (Presence_call ''user@example.com'' ''<'') ex_world = ([], ex_world)"
    by (simp add: ex_conn_def ex_world_def)
  have o: "outgoing ex_conn = TcpConn 0"
    by (simp add: ex_conn_def)
  have l: "run_writer ex_conn (Presence_call ''user@example.com'' ''<'') ex_world =
      Returns () (appended ex_world (outgoing ex_conn)
        (fragment (Presence_call ''user@example.com'' ''<'') []))"
    using T [THEN conjunct2, THEN conjunct2, THEN conjunct2, THEN conjunct2, THEN conjunct2, THEN conjunct2, THEN conjunct2, THEN conjunct2, THEN conjunct2, THEN conjunct1] b by (rule mp)
  have n: "\<not> wf_element (fragment (Presence_call ''user@example.com'' ''<'') [])"
    using T [THEN conjunct2, THEN conjunct2, THEN conjunct2, THEN conjunct2, THEN conjunct2, THEN conjunct2, THEN conjunct2, THEN conjunct2, THEN conjunct2, THEN conjunct2, THEN conjunct2, THEN conjunct2, THEN conjunct2, THEN conjunct2, THEN conjunct2, THEN conjunct2, THEN conjunct2, THEN conjunct2, THEN conjunct1] .
  have g: "fragment (MUCSend_call ''chat'' ''room'' ''me'' ''<b> & 'c' \"d\"'') ''0000000000000000'' =
      ''<message from='me' id='0000000000000000' to='room' type='chat'><body>&lt;b&gt; &amp; &#39;c&#39; &#34;d&#34;</body></message>''"
    using U [THEN conjunct2, THEN conjunct2, THEN conjunct2, THEN conjunct2, THEN conjunct2, THEN conjunct2, THEN conjunct2, THEN conjunct2, THEN conjunct2, THEN conjunct2, THEN conjunct2, THEN conjunct2, THEN conjunct2, THEN conjunct2, THEN conjunct2, THEN conjunct2, THEN conjunct2, THEN conjunct2, THEN conjunct2, THEN conjunct2, THEN conjunct2, THEN conjunct2, THEN conjunct2, THEN conjunct2, THEN conjunct2, THEN conjunct2, THEN conjunct2, THEN conjunct2, THEN conjunct2, THEN conjunct1] .
  have d: "backed (outgoing ex_conn) \<and> wlimit (conns ex_world (outgoing ex_conn)) = None \<and>
      draws_id (MUCSend_call ''chat'' ''room'' ''me'' ''<b> & 'c' \"d\"'') ex_world =
        (''0000000000000000'', ex_world\<lparr>stdout := ''error generating id: EOF''\<rparr>)"
    using ex_world_id by (simp add: ex_conn_def ex_world_def)
  have m: "run_writer ex_conn (MUCSend_call ''chat'' ''room'' ''me'' ''<b> & 'c' \"d\"'') ex_world =
      Returns () (appended (ex_world\<lparr>stdout := ''error generating id: EOF''\<rparr>) (outgoing ex_conn)
        (fragment (MUCSend_call ''chat'' ''room'' ''me'' ''<b> & 'c' \"d\"'') ''0000000000000000''))"
    using U [THEN conjunct2, THEN conjunct2, THEN conjunct2, THEN conjunct2, THEN conjunct2, THEN conjunct2, THEN conjunct2, THEN conjunct2, THEN conjunct2, THEN conjunct1] d by (rule mp)
  show ?thesis
    using l n m unfolding f g o by simp
qed

end
